theory Spec2Isabelle
  imports Main "HOL-Library.Word" "HOL-Library.List_Lexorder"
begin

section \<open>Strings, identifiers and the signalling schema\<close>

text \<open>
  A JavaScript string is a sequence of UTF-16 code units, and the relational operators
  on two strings compare them code unit by code unit, a proper prefix being smaller.
  That is the lexicographic order on lists of 16-bit words.
\<close>

type_synonym js_string = "16 word list"

definition utf16 :: "string \<Rightarrow> js_string" where
  "utf16 s = map (\<lambda>c. of_char c) s"

text \<open>
  Modelled from the spec: the enums \<open>CallErrorCode\<close>, \<open>EventType\<close>, \<open>CallIntent\<close> and
  \<open>CallState\<close> are declared in \<open>callEventTypes\<close> and \<open>PeerCall\<close>, which are not among the
  sources. The constructors are the members the sources and the specification name;
  \<open>OtherErrorCode\<close> stands for every other (non-empty) reason string.
\<close>

datatype CallErrorCode =
    UserHangup | AnsweredElsewhere | Replaced | UserBusy | Transfered | NewSession
  | OtherErrorCode js_string

datatype EventType =
    GroupCallEvent | GroupCallMember
  | Invite | Answer | Candidates | Hangup | Reject | Negotiate | SDPStreamMetadataChanged

datatype CallIntent = Ring | Prompt | Room

datatype CallState =
    Fledgling | CreateOffer | InviteSent | CreateAnswer | Ringing | Connecting | Connected | Ended

text \<open>
  Objects that the code compares or stores by reference carry their identity: a local
  media object is its identity, a signalling message has a \<open>ref\<close>.
\<close>

datatype LocalMedia = LocalMedia nat

record SignallingMessage =
  ref :: nat
  msg_type :: EventType
  call_id :: js_string
  sender_session_id :: js_string
  dest_session_id :: js_string

record CallDeviceMembership =
  device_id :: js_string
  session_id :: js_string

record RoomMember =
  rm_userId :: js_string

section \<open>Member\<close>

text \<open>
  The part of \<open>Options\<close> that \<open>Member\<close> reads. The home server API, the logger and the
  encryption callback are collaborators; what the member does to them is recorded as
  effects.
\<close>

record MemberOptions =
  confId :: js_string
  ownUserId :: js_string
  ownDeviceId :: js_string
  sessionId :: js_string

text \<open>
  Modelled from the spec: the class \<open>PeerCall\<close> is not among the sources. The member
  holds a reference to a peer call, here the call id it was constructed with, and every
  method the member invokes on it (\<open>call\<close>, \<open>answer\<close>, \<open>hangup\<close>, \<open>close\<close>, \<open>dispose\<close>,
  \<open>setMedia\<close>, \<open>handleIncomingSignallingMessage\<close>) is an effect. What the peer call does
  in return reaches the member only through \<open>emitUpdate\<close>, where the peer call hands
  itself over and the callback reads its \<open>state\<close> and \<open>hangupReason\<close>; each such callback
  is an input of its own. \<open>LocalMedia.dispose\<close>, the log items and the update callback of
  the options are effects in the same way.
\<close>

record PeerCall =
  pc_callId :: js_string
  pc_state :: CallState
  pc_hangupReason :: "CallErrorCode option"

datatype effect =
    LogWrap string
  | LogItemLog string
  | SyncLogRefDetached
  | PeerCallNew js_string
  | PeerCallCall js_string "LocalMedia option"
  | PeerCallAnswer js_string "LocalMedia option"
  | PeerCallHangup js_string CallErrorCode
  | PeerCallClose js_string
  | PeerCallDispose js_string
  | PeerCallSetMedia js_string LocalMedia
  | PeerCallHandleIncoming js_string SignallingMessage js_string
  | LocalMediaDispose LocalMedia
  | OptionsEmitUpdate

record Member =
  member :: RoomMember
  callDeviceMembership :: CallDeviceMembership
  options :: MemberOptions
  peerCall :: "js_string option"
  localMedia :: "LocalMedia option"
  retryCount :: nat

definition errorCodesWithoutRetry :: "CallErrorCode list" where
  "errorCodesWithoutRetry =
     [UserHangup, AnsweredElsewhere, Replaced, UserBusy, Transfered, NewSession]"

definition newMember :: "RoomMember \<Rightarrow> CallDeviceMembership \<Rightarrow> MemberOptions \<Rightarrow> Member" where
  "newMember rm dev opts =
     \<lparr>member = rm, callDeviceMembership = dev, options = opts,
      peerCall = None, localMedia = None, retryCount = 0\<rparr>"

definition userId :: "Member \<Rightarrow> js_string" where
  "userId m = rm_userId (member m)"

definition deviceId :: "Member \<Rightarrow> js_string" where
  "deviceId m = device_id (callDeviceMembership m)"

text \<open>
  \<open>shouldInitiateCall\<close> is the local variable of \<open>Member.connect\<close>: \<open>this.member.userId\<close>
  and \<open>this.deviceId\<close> are the remote participant's, \<open>this.options.own...\<close> ours.
\<close>

definition shouldInitiateCall :: "Member \<Rightarrow> bool" where
  "shouldInitiateCall m =
     (if userId m = ownUserId (options m)
      then deviceId m > ownDeviceId (options m)
      else userId m > ownUserId (options m))"

text \<open>
  \<open>connect\<close>: the argument is optional in the model because \<open>emitUpdate\<close> passes
  \<open>this.localMedia!\<close>, whose non-null assertion is erased at run time. \<open>newId\<close> is what
  \<open>makeId("c")\<close> returns.
\<close>

definition connect :: "LocalMedia option \<Rightarrow> js_string \<Rightarrow> Member \<Rightarrow> Member \<times> effect list" where
  "connect lm newId m =
     (let m1 = m\<lparr>localMedia := lm\<rparr> in
      if shouldInitiateCall m1
      then (m1\<lparr>peerCall := Some newId\<rparr>,
            [LogWrap ''connect'', PeerCallNew newId, PeerCallCall newId lm])
      else (m1, [LogWrap ''connect'']))"

definition disconnect :: "bool \<Rightarrow> Member \<Rightarrow> Member \<times> effect list" where
  "disconnect hangup m =
     (m\<lparr>peerCall := None, localMedia := None\<rparr>,
      [LogWrap ''disconnect'']
      @ (case peerCall m of
           None \<Rightarrow> []
         | Some c \<Rightarrow> [if hangup then PeerCallHangup c UserHangup else PeerCallClose c,
                      PeerCallDispose c])
      @ (case localMedia m of None \<Rightarrow> [] | Some l \<Rightarrow> [LocalMediaDispose l]))"

definition updateCallInfo :: "CallDeviceMembership \<Rightarrow> Member \<Rightarrow> Member" where
  "updateCallInfo dev m = m\<lparr>callDeviceMembership := dev\<rparr>"

text \<open>
  \<open>emitUpdate\<close>: the test \<open>hangupReason &&\<close> is on a value of the string enum or
  \<open>undefined\<close>; every member of the enum is a non-empty string, so it holds exactly when
  a reason is present. \<open>newId\<close> is the id \<open>makeId\<close> returns should \<open>connect\<close> run.
\<close>

definition emitUpdate :: "PeerCall \<Rightarrow> js_string \<Rightarrow> Member \<Rightarrow> Member \<times> effect list" where
  "emitUpdate pc newId m =
     (if pc_state pc = Ringing
      then (m, [PeerCallAnswer (pc_callId pc) (localMedia m), OptionsEmitUpdate])
      else if pc_state pc = Ended
      then (let m1 = m\<lparr>peerCall := None\<rparr>;
                disposed = [PeerCallDispose (pc_callId pc)] in
            case pc_hangupReason pc of
              None \<Rightarrow> (m1, disposed @ [OptionsEmitUpdate])
            | Some hangupReason \<Rightarrow>
                if hangupReason \<notin> set errorCodesWithoutRetry
                then (let m2 = m1\<lparr>retryCount := retryCount m1 + 1\<rparr> in
                      if retryCount m2 \<le> 3
                      then (let (m3, es) = connect (localMedia m2) newId m2
                            in (m3, disposed @ es @ [OptionsEmitUpdate]))
                      else (m2, disposed @ [OptionsEmitUpdate]))
                else (m1, disposed @ [OptionsEmitUpdate]))
      else (m, [OptionsEmitUpdate]))"

definition handleDeviceMessage ::
  "SignallingMessage \<Rightarrow> js_string \<Rightarrow> Member \<Rightarrow> Member \<times> effect list" where
  "handleDeviceMessage message devId m =
     (if dest_session_id message \<noteq> sessionId (options m)
      then (m, [SyncLogRefDetached, LogItemLog ''ignoring to_device event with wrong session_id''])
      else
        (let (m1, created) =
               (if msg_type message = Invite \<and> peerCall m = None
                then (m\<lparr>peerCall := Some (call_id message)\<rparr>, [PeerCallNew (call_id message)])
                else (m, []))
         in case peerCall m1 of
              Some c \<Rightarrow> (m1, [SyncLogRefDetached] @ created @ [PeerCallHandleIncoming c message devId])
            | None \<Rightarrow> (m1, [SyncLogRefDetached] @ created)))"

definition setMedia :: "LocalMedia \<Rightarrow> Member \<Rightarrow> Member \<times> effect list" where
  "setMedia lm m =
     (m\<lparr>localMedia := Some lm\<rparr>,
      (case peerCall m of None \<Rightarrow> [] | Some c \<Rightarrow> [PeerCallSetMedia c lm])
      @ (case localMedia m of None \<Rightarrow> [] | Some old \<Rightarrow> [LocalMediaDispose old]))"

text \<open>
  Modelled from the spec: the getter \<open>sessionId\<close> that \<open>GroupCall\<close> reads from a member is
  not declared in \<open>Member.ts\<close>. The specification lists \<open>session_id\<close> among the member's
  attributes, and \<open>sendSignallingMessage\<close> takes the remote session from
  \<open>this.callDeviceMembership.session_id\<close>; the getter is modelled as that field.
\<close>

definition memberSessionId :: "Member \<Rightarrow> js_string" where
  "memberSessionId m = session_id (callDeviceMembership m)"

section \<open>GroupCall\<close>

text \<open>
  \<open>getMemberKey\<close> concatenates the JSON encodings of the user id and of the device id
  with a comma. A JSON string literal ends at its first unescaped quote, so the encoding
  is injective on pairs, \<open>memberKeyIsForUser\<close> (a prefix test against the encoded user id
  and the comma) holds exactly for the keys of that user, and \<open>getDeviceFromMemberKey\<close>
  parses the device id back. The key is modelled as the pair.
\<close>

type_synonym MemberKey = "js_string \<times> js_string"

definition getMemberKey :: "js_string \<Rightarrow> js_string \<Rightarrow> MemberKey" where
  "getMemberKey uid did = (uid, did)"

definition memberKeyIsForUser :: "MemberKey \<Rightarrow> js_string \<Rightarrow> bool" where
  "memberKeyIsForUser key uid = (fst key = uid)"

definition getDeviceFromMemberKey :: "MemberKey \<Rightarrow> js_string" where
  "getDeviceFromMemberKey key = snd key"

datatype GroupCallState = Fledgling | Creating | Created | Joining | Joined

datatype CallType = Video | Voice

record CallContent =
  m_intent :: "CallIntent option"
  m_type :: "CallType option"
  m_name :: "js_string option"
  m_terminated :: bool

record CallInfo =
  m_call_id :: js_string
  m_devices :: "CallDeviceMembership list"

record CallMembership =
  m_calls :: "CallInfo list option"

datatype StateContent = MemberStateContent CallMembership | CallStateContent CallContent

text \<open>
  \<open>JoinedData\<close>: the log items, the mute settings and the TURN server value are handed
  through to collaborators and to arguments that \<open>Member.connect\<close> does not read; the
  field the operations below depend on is the local media.
\<close>

record JoinedData =
  jd_localMedia :: LocalMedia

datatype error = TurnServerFailure | TransportFailure | TypeError

datatype outcome = Returned | Threw error

datatype gc_effect =
    EmitChange
  | GLog string
  | SendState EventType js_string StateContent
  | ByMember MemberKey effect
  | MemberHandleDeviceMessage MemberKey SignallingMessage
  | DisposeLocalMedia LocalMedia
  | LogItemFinish

text \<open>
  Modelled from the spec: the class \<open>ObservableMap\<close> of \<open>_members\<close> is not among the
  sources; the specification gives \<open>members\<close> as a map from member keys to members. It
  is modelled as a JavaScript \<open>Map\<close>, which iterates in insertion order: an association
  list with \<open>map_set\<close> for \<open>add\<close> (an existing key would keep its position) and
  \<open>map_delete\<close> for \<open>remove\<close>. The map holds references to member objects; the model
  writes a member back under its key after mutating it.
\<close>

fun map_set :: "'k \<Rightarrow> 'v \<Rightarrow> ('k \<times> 'v) list \<Rightarrow> ('k \<times> 'v) list" where
  "map_set k v [] = [(k, v)]"
| "map_set k v (p # ps) = (if fst p = k then (k, v) # ps else p # map_set k v ps)"

definition map_delete :: "'k \<Rightarrow> ('k \<times> 'v) list \<Rightarrow> ('k \<times> 'v) list" where
  "map_delete k ps = filter (\<lambda>p. fst p \<noteq> k) ps"

text \<open>
  A buffer is a JavaScript \<open>Set\<close> of message objects: insertion ordered, and adding an
  object that is already in the set changes nothing.
\<close>

definition set_add :: "SignallingMessage list \<Rightarrow> SignallingMessage \<Rightarrow> SignallingMessage list" where
  "set_add ms message = (if ref message \<in> ref ` set ms then ms else ms @ [message])"

record GroupCall =
  gc_id :: js_string
  roomId :: js_string
  callContent :: CallContent
  memberOptions :: MemberOptions
  members :: "(MemberKey \<times> Member) list"
  gc_state :: GroupCallState
  bufferedDeviceMessages :: "MemberKey \<rightharpoonup> SignallingMessage list"
  joinedData :: "JoinedData option"
  deviceIndex :: "nat option"
  eventTimestamp :: "nat option"

text \<open>The constructor; \<open>opts\<close> carries the own user id, device id and session id.\<close>

definition newGroupCall ::
  "js_string \<Rightarrow> bool \<Rightarrow> CallContent \<Rightarrow> js_string \<Rightarrow> MemberOptions \<Rightarrow> GroupCall" where
  "newGroupCall cid newCall content rid opts =
     \<lparr>gc_id = cid, roomId = rid, callContent = content,
      memberOptions = opts\<lparr>confId := cid\<rparr>,
      members = [],
      gc_state = (if newCall then Fledgling else Created),
      bufferedDeviceMessages = Map.empty,
      joinedData = None, deviceIndex = None, eventTimestamp = None\<rparr>"

definition GroupCall_localMedia :: "GroupCall \<Rightarrow> LocalMedia option" where
  "GroupCall_localMedia g = map_option jd_localMedia (joinedData g)"

definition intent :: "GroupCall \<Rightarrow> CallIntent option" where
  "intent g = m_intent (callContent g)"

definition hasJoined :: "GroupCall \<Rightarrow> bool" where
  "hasJoined g = (gc_state g = Joining \<or> gc_state g = Joined)"

text \<open>
  What the operations read from outside: the identifiers \<open>makeId\<close> hands out (one per
  member that connects), the own member state event as the storage has it, the clock, and
  whether the TURN settings request and the state event requests succeed. An \<open>async\<close>
  operation is modelled as running to its end with these answers: it returns the call,
  the effects in order and whether it returned or threw. \<open>memberMedia\<close> is the media
  object a member is connected with, see \<open>connectToMember\<close>.
\<close>

record Env =
  mkId :: "MemberKey \<Rightarrow> js_string"
  memberMedia :: "LocalMedia \<Rightarrow> MemberKey \<Rightarrow> LocalMedia"
  stored :: "CallMembership option"
  now :: nat
  turnServerOk :: bool
  sendMemberStateOk :: bool
  sendCallStateOk :: bool

text \<open>
  Modelled from the spec: \<open>GroupCall\<close> constructs and calls a \<open>Member\<close> of a later revision
  than \<open>Member.ts\<close> (a constructor with device index and event timestamp, \<open>connect\<close> with
  mute settings, TURN server and log item, a \<open>sessionId\<close> getter); that revision is not
  among the sources. The model gives the member \<open>GroupCall\<close> holds the state and the
  operations of \<open>Member.ts\<close>, matching arguments by their role. Which media object such a
  member keeps when \<open>connectToMember\<close> connects it with the call's local media, that
  object or a clone of it (the notes of the repository record the cloning as done), is
  not decided by the sources: it is the parameter \<open>memberMedia\<close>.
\<close>

definition connectToMember ::
  "Env \<Rightarrow> JoinedData \<Rightarrow> Member \<Rightarrow> Member \<times> gc_effect list" where
  "connectToMember env jd m =
     (let memberKey = getMemberKey (userId m) (deviceId m);
          (m', es) = connect (Some (memberMedia env (jd_localMedia jd) memberKey))
                       (mkId env memberKey) m
      in (m', map (ByMember memberKey) es))"

fun connectAll ::
  "Env \<Rightarrow> JoinedData \<Rightarrow> (MemberKey \<times> Member) list \<Rightarrow> (MemberKey \<times> Member) list \<times> gc_effect list" where
  "connectAll env jd [] = ([], [])"
| "connectAll env jd ((k, m) # ms) =
     (let (m', es) = connectToMember env jd m;
          (ms', es') = connectAll env jd ms
      in ((k, m') # ms', es @ es'))"

fun disconnectAll ::
  "bool \<Rightarrow> (MemberKey \<times> Member) list \<Rightarrow> (MemberKey \<times> Member) list \<times> gc_effect list" where
  "disconnectAll hangup [] = ([], [])"
| "disconnectAll hangup ((k, m) # ms) =
     (let (m', es) = disconnect hangup m;
          (ms', es') = disconnectAll hangup ms
      in ((k, m') # ms', map (ByMember k) es @ es'))"

text \<open>
  \<open>_createJoinPayload\<close>: the first entry of \<open>m.calls\<close> for this call gets the own device
  appended, after any earlier entry of the own device is filtered out; an entry for the
  call is pushed first when there is none. A stored content without \<open>m.calls\<close> makes
  \<open>callsInfo.find\<close> throw.
\<close>

fun updateFirstCall :: "js_string \<Rightarrow> (CallInfo \<Rightarrow> CallInfo) \<Rightarrow> CallInfo list \<Rightarrow> CallInfo list" where
  "updateFirstCall cid f [] = []"
| "updateFirstCall cid f (c # cs) =
     (if m_call_id c = cid then f c # cs else c # updateFirstCall cid f cs)"

definition ownDevice :: "GroupCall \<Rightarrow> CallDeviceMembership" where
  "ownDevice g =
     \<lparr>device_id = ownDeviceId (memberOptions g), session_id = sessionId (memberOptions g)\<rparr>"

definition joinDevices :: "GroupCall \<Rightarrow> CallDeviceMembership list \<Rightarrow> CallDeviceMembership list" where
  "joinDevices g ds =
     filter (\<lambda>d. device_id d \<noteq> ownDeviceId (memberOptions g)) ds @ [ownDevice g]"

definition createJoinPayload :: "Env \<Rightarrow> GroupCall \<Rightarrow> error + (CallMembership \<times> nat)" where
  "createJoinPayload env g =
     (let stateContent = (case stored env of None \<Rightarrow> \<lparr>m_calls = Some []\<rparr> | Some c \<Rightarrow> c) in
      case m_calls stateContent of
        None \<Rightarrow> Inl TypeError
      | Some callsInfo \<Rightarrow>
          (case find (\<lambda>c. m_call_id c = gc_id g) callsInfo of
             None \<Rightarrow>
               Inr (stateContent\<lparr>m_calls :=
                      Some (callsInfo @ [\<lparr>m_call_id = gc_id g, m_devices = joinDevices g []\<rparr>])\<rparr>,
                    length (joinDevices g []))
           | Some callInfo \<Rightarrow>
               Inr (stateContent\<lparr>m_calls :=
                      Some (updateFirstCall (gc_id g)
                              (\<lambda>c. c\<lparr>m_devices := joinDevices g (m_devices c)\<rparr>) callsInfo)\<rparr>,
                    length (joinDevices g (m_devices callInfo)))))"

definition join :: "LocalMedia \<Rightarrow> Env \<Rightarrow> GroupCall \<Rightarrow> GroupCall \<times> gc_effect list \<times> outcome" where
  "join lm env g =
     (if gc_state g \<noteq> Created \<or> joinedData g \<noteq> None then (g, [], Returned)
      else if \<not> turnServerOk env then (g, [], Threw TurnServerFailure)
      else
        (let jd = \<lparr>jd_localMedia = lm\<rparr>;
             g1 = g\<lparr>joinedData := Some jd, gc_state := Joining\<rparr>
         in case createJoinPayload env g1 of
              Inl e \<Rightarrow> (g1, [EmitChange], Threw e)
            | Inr (memberContent, idx) \<Rightarrow>
                (let g2 = g1\<lparr>deviceIndex := Some idx, eventTimestamp := Some (now env)\<rparr>;
                     sent = [EmitChange,
                             SendState GroupCallMember (ownUserId (memberOptions g2))
                               (MemberStateContent memberContent)]
                 in if \<not> sendMemberStateOk env then (g2, sent, Threw TransportFailure)
                    else (let (ms, es) = connectAll env jd (members g2)
                          in (g2\<lparr>members := ms\<rparr>, sent @ [EmitChange] @ es, Returned)))))"

definition GroupCall_disconnect :: "GroupCall \<Rightarrow> GroupCall \<times> gc_effect list" where
  "GroupCall_disconnect g =
     (let (g1, es) =
            (if gc_state g = Joined
             then (let (ms, es) = disconnectAll True (members g)
                   in (g\<lparr>members := ms, gc_state := Created\<rparr>, es))
             else (g, []));
          disposed =
            (case joinedData g1 of
               None \<Rightarrow> []
             | Some jd \<Rightarrow> [DisposeLocalMedia (jd_localMedia jd), LogItemFinish])
      in (g1\<lparr>joinedData := None\<rparr>, es @ disposed @ [EmitChange]))"

text \<open>
  \<open>_leaveCallMemberContent\<close>: the stored own member state event with the first entry of
  the own device spliced out of the devices of the first entry for this call; undefined
  when there is no event, no \<open>m.calls\<close>, no entry for the call or no entry of the device.
\<close>

fun removeFirst :: "('a \<Rightarrow> bool) \<Rightarrow> 'a list \<Rightarrow> 'a list" where
  "removeFirst P [] = []"
| "removeFirst P (x # xs) = (if P x then xs else x # removeFirst P xs)"

definition leaveCallMemberContent :: "Env \<Rightarrow> GroupCall \<Rightarrow> CallMembership option" where
  "leaveCallMemberContent env g =
     (case stored env of
        None \<Rightarrow> None
      | Some content \<Rightarrow>
          (case m_calls content of
             None \<Rightarrow> None
           | Some calls \<Rightarrow>
               (case find (\<lambda>c. m_call_id c = gc_id g) calls of
                  None \<Rightarrow> None
                | Some callInfo \<Rightarrow>
                    (case find (\<lambda>d. device_id d = ownDeviceId (memberOptions g))
                            (m_devices callInfo) of
                       None \<Rightarrow> None
                     | Some _ \<Rightarrow>
                         Some (content\<lparr>m_calls := Some (updateFirstCall (gc_id g)
                                 (\<lambda>c. c\<lparr>m_devices :=
                                        removeFirst (\<lambda>d. device_id d = ownDeviceId (memberOptions g))
                                          (m_devices c)\<rparr>)
                                 calls)\<rparr>)))))"

definition terminate :: "Env \<Rightarrow> GroupCall \<Rightarrow> gc_effect list \<times> outcome" where
  "terminate env g =
     (if gc_state g = Fledgling then ([], Returned)
      else ([SendState GroupCallEvent (gc_id g)
               (CallStateContent ((callContent g)\<lparr>m_terminated := True\<rparr>))],
            if sendCallStateOk env then Returned else Threw TransportFailure))"

text \<open>
  \<open>leave\<close>: the body runs in \<open>try\<close> with \<open>this.disconnect(log)\<close> in \<open>finally\<close>, so the
  disconnect follows on every path, also when a request is rejected.
\<close>

definition leave :: "Env \<Rightarrow> GroupCall \<Rightarrow> GroupCall \<times> gc_effect list \<times> outcome" where
  "leave env g =
     (case joinedData g of
        None \<Rightarrow> (g, [], Returned)
      | Some jd \<Rightarrow>
          (let (es, out) =
                 (case leaveCallMemberContent env g of
                    Some memberContent \<Rightarrow>
                      (let sent = [SendState GroupCallMember (ownUserId (memberOptions g))
                                     (MemberStateContent memberContent)]
                       in if \<not> sendMemberStateOk env then (sent, Threw TransportFailure)
                          else if intent g = Some Ring \<and> length (members g) = 0
                          then (let (ts, out) = terminate env g in (sent @ ts, out))
                          else (sent, Returned))
                  | None \<Rightarrow> ([GLog ''already_left''], Returned));
               (g', ds) = GroupCall_disconnect g
           in (g', es @ ds, out)))"

definition create :: "CallType \<Rightarrow> Env \<Rightarrow> GroupCall \<Rightarrow> GroupCall \<times> gc_effect list \<times> outcome" where
  "create type env g =
     (if gc_state g \<noteq> Fledgling then (g, [], Returned)
      else
        (let content = (callContent g)\<lparr>m_type :=
                          (case m_type (callContent g) of None \<Rightarrow> Some type | Some t \<Rightarrow> Some t)\<rparr>;
             g1 = g\<lparr>gc_state := Creating, callContent := content\<rparr>;
             sent = [EmitChange, SendState GroupCallEvent (gc_id g) (CallStateContent content)]
         in if \<not> sendCallStateOk env then (g1, sent, Threw TransportFailure)
            else (g1\<lparr>gc_state := Created\<rparr>, sent @ [EmitChange], Returned)))"

definition updateCallEvent :: "CallContent \<Rightarrow> GroupCall \<Rightarrow> GroupCall \<times> gc_effect list" where
  "updateCallEvent content g =
     (g\<lparr>callContent := content,
        gc_state := (if gc_state g = Creating then Created else gc_state g)\<rparr>,
      [EmitChange])"

text \<open>
  \<open>flushPendingIncomingDeviceMessages\<close>: the loop walks the buffer in insertion order,
  hands every message of the member's session to the member and deletes it from the
  buffer; a JavaScript \<open>Set\<close> may be deleted from while it is iterated. The loop returns
  the member, the messages left over and the effects. \<open>GroupCall\<close> calls
  \<open>member.handleDeviceMessage(message, log)\<close>, written against a later signature of
  the member than the one in \<open>Member.ts\<close>; the model passes the member's device id for the
  device id parameter. Each call is recorded as \<open>MemberHandleDeviceMessage\<close>, followed by
  what the member does.
\<close>

fun flushLoop ::
  "MemberKey \<Rightarrow> Member \<Rightarrow> SignallingMessage list
     \<Rightarrow> Member \<times> SignallingMessage list \<times> gc_effect list" where
  "flushLoop k m [] = (m, [], [])"
| "flushLoop k m (message # rest) =
     (if sender_session_id message = memberSessionId m
      then (let (m1, es) = handleDeviceMessage message (deviceId m) m;
                (m2, remaining, es') = flushLoop k m1 rest
            in (m2, remaining, MemberHandleDeviceMessage k message # map (ByMember k) es @ es'))
      else (let (m2, remaining, es') = flushLoop k m rest
            in (m2, message # remaining, es')))"

definition flushPendingIncomingDeviceMessages ::
  "Member \<Rightarrow> GroupCall \<Rightarrow> Member \<times> GroupCall \<times> gc_effect list" where
  "flushPendingIncomingDeviceMessages m g =
     (let memberKey = getMemberKey (userId m) (deviceId m) in
      case bufferedDeviceMessages g memberKey of
        None \<Rightarrow> (m, g, [])
      | Some bufferedMessages \<Rightarrow>
          (let (m', remaining, es) = flushLoop memberKey m bufferedMessages
           in (m',
               g\<lparr>bufferedDeviceMessages :=
                    (if length remaining = 0
                     then (bufferedDeviceMessages g)(memberKey := None)
                     else (bufferedDeviceMessages g)(memberKey \<mapsto> remaining))\<rparr>,
               es)))"

definition getDeviceIdsForUserId :: "GroupCall \<Rightarrow> js_string \<Rightarrow> js_string list" where
  "getDeviceIdsForUserId g uid =
     map getDeviceFromMemberKey (filter (\<lambda>key. memberKeyIsForUser key uid) (map fst (members g)))"

definition isMember :: "GroupCall \<Rightarrow> js_string \<Rightarrow> bool" where
  "isMember g uid = list_ex (\<lambda>key. memberKeyIsForUser key uid) (map fst (members g))"

definition removeOwnDevice :: "GroupCall \<Rightarrow> GroupCall \<times> gc_effect list" where
  "removeOwnDevice g =
     (let (g', es) = GroupCall_disconnect g in (g', GLog ''leave_own'' # es))"

definition removeMemberDevice :: "js_string \<Rightarrow> js_string \<Rightarrow> GroupCall \<Rightarrow> GroupCall \<times> gc_effect list" where
  "removeMemberDevice uid did g =
     (let memberKey = getMemberKey uid did in
      case map_of (members g) memberKey of
        Some m \<Rightarrow>
          (g\<lparr>members := map_delete memberKey (members g)\<rparr>,
           GLog ''leave'' # map (ByMember memberKey) (snd (disconnect False m)) @ [EmitChange])
      | None \<Rightarrow> (g, [EmitChange]))"

text \<open>
  The body of the loop over \<open>m.devices\<close> in \<open>updateMembership\<close>, for the device at
  \<open>deviceIndex\<close>. A member created here is added to the map and then connected and
  flushed; the map entry is the object those calls mutate.
\<close>

text \<open>
  Modelled from the spec: \<open>new Member(roomMember, device, deviceIndex, eventTimestamp,
  options)\<close> is the constructor of the later revision of \<open>Member\<close>, which is not among the
  sources. The member it yields is modelled as \<open>newMember\<close>: the room member, the device
  membership and the options in the fields \<open>Member.ts\<close> has for them, no peer call, no
  media and the retry count 0 of the field initialiser.
\<close>

definition addMember ::
  "Env \<Rightarrow> MemberKey \<Rightarrow> RoomMember \<Rightarrow> CallDeviceMembership \<Rightarrow> GroupCall
     \<Rightarrow> GroupCall \<times> gc_effect list" where
  "addMember env memberKey roomMember device g =
     (let m = newMember roomMember device (memberOptions g);
          (m1, ces) = (case joinedData g of
                         Some jd \<Rightarrow> connectToMember env jd m
                       | None \<Rightarrow> (m, []));
          (m2, g1, fes) = flushPendingIncomingDeviceMessages m1 g
      in (g1\<lparr>members := map_set memberKey m2 (members g1)\<rparr>, GLog ''add'' # ces @ fes))"

definition updateDeviceMembership ::
  "Env \<Rightarrow> js_string \<Rightarrow> RoomMember \<Rightarrow> nat \<Rightarrow> nat \<Rightarrow> CallDeviceMembership \<Rightarrow> GroupCall
     \<Rightarrow> GroupCall \<times> gc_effect list" where
  "updateDeviceMembership env uid roomMember ts idx device g =
     (let did = device_id device;
          memberKey = getMemberKey uid did in
      if uid = ownUserId (memberOptions g) \<and> did = ownDeviceId (memberOptions g)
      then (let g1 = g\<lparr>deviceIndex := Some idx, eventTimestamp := Some ts\<rparr> in
            if gc_state g1 = Joining
            then (g1\<lparr>gc_state := Joined\<rparr>, [GLog ''update_own'', EmitChange])
            else (g1, []))
      else
        (case map_of (members g) memberKey of
           None \<Rightarrow> addMember env memberKey roomMember device g
         | Some m \<Rightarrow>
             if memberSessionId m \<noteq> session_id device
             then (let g1 = g\<lparr>members := map_delete memberKey (members g)\<rparr>;
                       (g2, es) = addMember env memberKey roomMember device g1
                   in (g2, GLog ''removedSessionId''
                           # map (ByMember memberKey) (snd (disconnect False m)) @ es))
             else (let m1 = updateCallInfo device m;
                       (m2, g1, fes) = flushPendingIncomingDeviceMessages m1 g
                   in (g1\<lparr>members := map_set memberKey m2 (members g1)\<rparr>,
                       GLog ''update'' # fes))))"

fun updateDevices ::
  "Env \<Rightarrow> js_string \<Rightarrow> RoomMember \<Rightarrow> nat \<Rightarrow> nat \<Rightarrow> CallDeviceMembership list \<Rightarrow> GroupCall
     \<Rightarrow> GroupCall \<times> gc_effect list" where
  "updateDevices env uid roomMember ts idx [] g = (g, [])"
| "updateDevices env uid roomMember ts idx (device # devices) g =
     (let (g1, es) = updateDeviceMembership env uid roomMember ts idx device g;
          (g2, es') = updateDevices env uid roomMember ts (Suc idx) devices g1
      in (g2, es @ es'))"

fun removeMemberDevices ::
  "js_string \<Rightarrow> js_string list \<Rightarrow> GroupCall \<Rightarrow> GroupCall \<times> gc_effect list" where
  "removeMemberDevices uid [] g = (g, [])"
| "removeMemberDevices uid (did # dids) g =
     (let (g1, es) = removeMemberDevice uid did g;
          (g2, es') = removeMemberDevices uid dids g1
      in (g2, es @ es'))"

definition updateMembership ::
  "Env \<Rightarrow> js_string \<Rightarrow> RoomMember \<Rightarrow> CallDeviceMembership list \<Rightarrow> nat \<Rightarrow> GroupCall
     \<Rightarrow> GroupCall \<times> gc_effect list" where
  "updateMembership env uid roomMember devices ts g =
     (let previousDeviceIds = getDeviceIdsForUserId g uid;
          (g1, es1) = updateDevices env uid roomMember ts 0 devices g;
          newDeviceIds = map device_id devices;
          (g2, es2) = removeMemberDevices uid
                        (filter (\<lambda>d. d \<notin> set newDeviceIds) previousDeviceIds) g1;
          (g3, es3) = (if uid = ownUserId (memberOptions g2)
                          \<and> ownDeviceId (memberOptions g2) \<notin> set newDeviceIds
                       then removeOwnDevice g2 else (g2, []))
      in (g3, es1 @ es2 @ es3))"

definition removeMembership :: "js_string \<Rightarrow> GroupCall \<Rightarrow> GroupCall \<times> gc_effect list" where
  "removeMembership uid g =
     (let deviceIds = getDeviceIdsForUserId g uid;
          (g1, es1) = removeMemberDevices uid deviceIds g;
          (g2, es2) = (if uid = ownUserId (memberOptions g1) then removeOwnDevice g1 else (g1, []))
      in (g2, es1 @ es2))"

text \<open>
  \<open>GroupCall.handleDeviceMessage\<close>: deliver to the member of the key when its session is
  the sender's, otherwise log and add the message to the buffer of the key.
\<close>

definition GroupCall_handleDeviceMessage ::
  "SignallingMessage \<Rightarrow> js_string \<Rightarrow> js_string \<Rightarrow> GroupCall \<Rightarrow> GroupCall \<times> gc_effect list" where
  "GroupCall_handleDeviceMessage message uid did g =
     (let key = getMemberKey uid did;
          buffer =
            (g\<lparr>bufferedDeviceMessages :=
                 (bufferedDeviceMessages g)
                   (key \<mapsto> set_add (case bufferedDeviceMessages g key of
                                       None \<Rightarrow> [] | Some ms \<Rightarrow> ms) message)\<rparr>,
             [GLog ''call: buffering to_device message, member not found''])
      in case map_of (members g) key of
           None \<Rightarrow> buffer
         | Some m \<Rightarrow>
             if sender_session_id message = memberSessionId m
             then (let (m', es) = handleDeviceMessage message did m
                   in (g\<lparr>members := map_set key m' (members g)\<rparr>,
                       MemberHandleDeviceMessage key message # map (ByMember key) es))
             else buffer)"

text \<open>
  The order on participants that the specification speaks of: pairs
  \<open>(user_id, device_id)\<close>, compared first by user id and then by device id.
\<close>

definition lex_less :: "js_string \<times> js_string \<Rightarrow> js_string \<times> js_string \<Rightarrow> bool" where
  "lex_less p q = (fst p < fst q \<or> (fst p = fst q \<and> snd p < snd q))"

definition remoteId :: "Member \<Rightarrow> js_string \<times> js_string" where
  "remoteId m = (userId m, deviceId m)"

definition ownId :: "Member \<Rightarrow> js_string \<times> js_string" where
  "ownId m = (ownUserId (options m), ownDeviceId (options m))"

text \<open>
  The buffer of a key as a list (empty when the key has no entry), the calls of
  \<open>member.handleDeviceMessage\<close> in a list of effects, in order, and the condition under
  which \<open>GroupCall.handleDeviceMessage\<close> delivers.
\<close>

definition buffered :: "GroupCall \<Rightarrow> MemberKey \<Rightarrow> SignallingMessage list" where
  "buffered g k = (case bufferedDeviceMessages g k of None \<Rightarrow> [] | Some ms \<Rightarrow> ms)"

fun delivered :: "gc_effect list \<Rightarrow> (MemberKey \<times> SignallingMessage) list" where
  "delivered [] = []"
| "delivered (MemberHandleDeviceMessage k message # es) = (k, message) # delivered es"
| "delivered (e # es) = delivered es"

definition sessionMatches :: "GroupCall \<Rightarrow> MemberKey \<Rightarrow> SignallingMessage \<Rightarrow> bool" where
  "sessionMatches g key message =
     (case map_of (members g) key of
        None \<Rightarrow> False
      | Some m \<Rightarrow> sender_session_id message = memberSessionId m)"

text \<open>
  Every member sits in the map under the key of its own user id and device id. The
  operations keep this as long as \<open>updateMembership\<close> is called with the room member of
  the user whose membership it updates.
\<close>

definition memberKeysOk :: "GroupCall \<Rightarrow> bool" where
  "memberKeysOk g = list_all (\<lambda>(k, m). k = getMemberKey (userId m) (deviceId m)) (members g)"

text \<open>
  The two steps a new member goes through in \<open>updateMembership\<close>: it is connected when
  \<open>joinedData\<close> is set, and the messages buffered for its session are flushed into it.
\<close>

definition connectIfJoined :: "Env \<Rightarrow> GroupCall \<Rightarrow> Member \<Rightarrow> Member \<times> gc_effect list" where
  "connectIfJoined env g m =
     (case joinedData g of Some jd \<Rightarrow> connectToMember env jd m | None \<Rightarrow> (m, []))"

definition replacementMember :: "Env \<Rightarrow> RoomMember \<Rightarrow> CallDeviceMembership \<Rightarrow> GroupCall \<Rightarrow> Member" where
  "replacementMember env rm dev g =
     fst (flushPendingIncomingDeviceMessages
            (fst (connectIfJoined env g (newMember rm dev (memberOptions g)))) g)"

text \<open>
  What one pass of the loop body of \<open>updateMembership\<close> does for a device that is not our
  own, written out: \<open>memberBeforeFlush\<close> is the member the body installs under the key
  (the existing one with its call info updated when the session is unchanged, a new and,
  when \<open>joinedData\<close> is set, connected one otherwise), \<open>installEffects\<close> what the body
  does before it flushes, and \<open>flushedMember\<close> the result of applying
  \<open>Member.handleDeviceMessage\<close> to that member for each buffered message of the session,
  in buffer order (\<open>deliverAll\<close>).
\<close>

fun deliverAll :: "MemberKey \<Rightarrow> Member \<Rightarrow> SignallingMessage list \<Rightarrow> Member \<times> gc_effect list" where
  "deliverAll k m [] = (m, [])"
| "deliverAll k m (message # rest) =
     (let handled = handleDeviceMessage message (deviceId m) m;
          others = deliverAll k (fst handled) rest
      in (fst others,
          MemberHandleDeviceMessage k message # map (ByMember k) (snd handled) @ snd others))"

definition memberBeforeFlush ::
  "Env \<Rightarrow> js_string \<Rightarrow> RoomMember \<Rightarrow> CallDeviceMembership \<Rightarrow> GroupCall \<Rightarrow> Member" where
  "memberBeforeFlush env uid rm dev g =
     (case map_of (members g) (getMemberKey uid (device_id dev)) of
        None \<Rightarrow> fst (connectIfJoined env g (newMember rm dev (memberOptions g)))
      | Some m \<Rightarrow>
          if memberSessionId m = session_id dev then updateCallInfo dev m
          else fst (connectIfJoined env g (newMember rm dev (memberOptions g))))"

definition installEffects ::
  "Env \<Rightarrow> js_string \<Rightarrow> RoomMember \<Rightarrow> CallDeviceMembership \<Rightarrow> GroupCall \<Rightarrow> gc_effect list" where
  "installEffects env uid rm dev g =
     (case map_of (members g) (getMemberKey uid (device_id dev)) of
        None \<Rightarrow> GLog ''add'' # snd (connectIfJoined env g (newMember rm dev (memberOptions g)))
      | Some m \<Rightarrow>
          if memberSessionId m = session_id dev then [GLog ''update'']
          else GLog ''removedSessionId''
               # map (ByMember (getMemberKey uid (device_id dev))) (snd (disconnect False m))
               @ GLog ''add'' # snd (connectIfJoined env g (newMember rm dev (memberOptions g))))"

definition flushedMember ::
  "Env \<Rightarrow> js_string \<Rightarrow> RoomMember \<Rightarrow> CallDeviceMembership \<Rightarrow> GroupCall \<Rightarrow> Member \<times> gc_effect list" where
  "flushedMember env uid rm dev g =
     deliverAll (getMemberKey uid (device_id dev)) (memberBeforeFlush env uid rm dev g)
       (filter (\<lambda>x. sender_session_id x = session_id dev)
          (buffered g (getMemberKey uid (device_id dev))))"

section \<open>Example values\<close>

definition exMember :: "string \<Rightarrow> string \<Rightarrow> string \<Rightarrow> string \<Rightarrow> Member" where
  "exMember ru rd ou od =
     newMember \<lparr>rm_userId = utf16 ru\<rparr>
       \<lparr>device_id = utf16 rd, session_id = utf16 ''S1''\<rparr>
       \<lparr>confId = utf16 ''conf'', ownUserId = utf16 ou, ownDeviceId = utf16 od,
        sessionId = utf16 ''S0''\<rparr>"

definition exPeerCall :: "CallState \<Rightarrow> CallErrorCode option \<Rightarrow> PeerCall" where
  "exPeerCall st r = \<lparr>pc_callId = utf16 ''c0'', pc_state = st, pc_hangupReason = r\<rparr>"

definition exMessage :: "nat \<Rightarrow> EventType \<Rightarrow> string \<Rightarrow> string \<Rightarrow> string \<Rightarrow> SignallingMessage" where
  "exMessage r t c snd_s dst_s =
     \<lparr>ref = r, msg_type = t, call_id = utf16 c, sender_session_id = utf16 snd_s,
      dest_session_id = utf16 dst_s\<rparr>"

definition exOptions :: MemberOptions where
  "exOptions = \<lparr>confId = utf16 ''conf'', ownUserId = utf16 ''@a'', ownDeviceId = utf16 ''D0'',
                 sessionId = utf16 ''S0''\<rparr>"

definition exCall :: "CallIntent \<Rightarrow> GroupCall" where
  "exCall i =
     newGroupCall (utf16 ''conf'') False
       \<lparr>m_intent = Some i, m_type = Some Video, m_name = None, m_terminated = False\<rparr>
       (utf16 ''!room'') exOptions"

definition exEnv :: "CallMembership option \<Rightarrow> Env" where
  "exEnv st = \<lparr>mkId = (\<lambda>k. utf16 ''c1''),
               memberMedia = (\<lambda>l k. case l of LocalMedia n \<Rightarrow> LocalMedia (100 + n)),
               stored = st, now = 1000, turnServerOk = True,
               sendMemberStateOk = True, sendCallStateOk = True\<rparr>"

definition exDevice :: "string \<Rightarrow> string \<Rightarrow> CallDeviceMembership" where
  "exDevice d s = \<lparr>device_id = utf16 d, session_id = utf16 s\<rparr>"

definition exRemote :: RoomMember where
  "exRemote = \<lparr>rm_userId = utf16 ''@b''\<rparr>"

definition exWithMember :: GroupCall where
  "exWithMember =
     fst (updateMembership (exEnv None) (utf16 ''@b'') exRemote [exDevice ''D1'' ''S1''] 1000
            (exCall Ring))"

definition exJoining :: GroupCall where
  "exJoining = fst (join (LocalMedia 1) (exEnv None) exWithMember)"

definition exJoiningAlone :: GroupCall where
  "exJoiningAlone = fst (join (LocalMedia 1) (exEnv None) (exCall Ring))"

definition exJoinContent :: CallMembership where
  "exJoinContent =
     \<lparr>m_calls = Some [\<lparr>m_call_id = utf16 ''conf'', m_devices = [exDevice ''D0'' ''S0'']\<rparr>]\<rparr>"

definition exOwn :: RoomMember where
  "exOwn = \<lparr>rm_userId = utf16 ''@a''\<rparr>"

text \<open>
  \<open>exJoinedAlone\<close>: the call that was joined without members, after its own membership
  has come back.
\<close>

definition exJoinedAlone :: GroupCall where
  "exJoinedAlone =
     fst (updateMembership (exEnv (Some exJoinContent)) (utf16 ''@a'') exOwn
            [exDevice ''D0'' ''S0''] 1500 exJoiningAlone)"

text \<open>
  \<open>exLimbo\<close>: a call without members is joined and left before its own membership has
  come back; then the own membership comes back, and then the membership of a remote
  device.
\<close>

definition exLimbo :: GroupCall where
  "exLimbo =
     fst (updateMembership (exEnv None) (utf16 ''@b'') exRemote [exDevice ''D1'' ''S1''] 1600
            (fst (updateMembership (exEnv None) (utf16 ''@a'') exOwn [exDevice ''D0'' ''S0''] 1500
                    (fst (leave (exEnv None) exJoiningAlone)))))"

text \<open>\<open>flood n\<close>: \<open>n\<close> messages, each a new object, from a device that is no member.\<close>

fun flood :: "nat \<Rightarrow> GroupCall \<Rightarrow> GroupCall" where
  "flood 0 g = g"
| "flood (Suc n) g =
     fst (GroupCall_handleDeviceMessage (exMessage n Candidates ''c5'' ''S7'' ''S0'')
            (utf16 ''@b'') (utf16 ''D1'') (flood n g))"

section \<open>Initiator selection\<close>

lemma shouldInitiateCall_lex: "shouldInitiateCall m \<longleftrightarrow> lex_less (ownId m) (remoteId m)"
  by (auto simp: shouldInitiateCall_def lex_less_def ownId_def remoteId_def)

lemma shouldInitiateCall_localMedia [simp]:
  "shouldInitiateCall (m\<lparr>localMedia := lm\<rparr>) = shouldInitiateCall m"
  by (simp add: shouldInitiateCall_def userId_def deviceId_def)

lemma shouldInitiateCall_peerCall [simp]:
  "shouldInitiateCall (m\<lparr>peerCall := p\<rparr>) = shouldInitiateCall m"
  by (simp add: shouldInitiateCall_def userId_def deviceId_def)

lemma shouldInitiateCall_retryCount [simp]:
  "shouldInitiateCall (m\<lparr>retryCount := n\<rparr>) = shouldInitiateCall m"
  by (simp add: shouldInitiateCall_def userId_def deviceId_def)

lemma connect_effects:
  "snd (connect lm newId m) =
     (if shouldInitiateCall m
      then [LogWrap ''connect'', PeerCallNew newId, PeerCallCall newId lm]
      else [LogWrap ''connect''])"
  by (simp add: connect_def Let_def)

lemma connect_peerCall:
  "peerCall (fst (connect lm newId m)) = (if shouldInitiateCall m then Some newId else peerCall m)"
  by (simp add: connect_def Let_def)

lemma connect_retryCount [simp]: "retryCount (fst (connect lm newId m)) = retryCount m"
  by (simp add: connect_def Let_def)

lemma connect_logs: "LogWrap ''connect'' \<in> set (snd (connect lm newId m))"
  by (simp add: connect_effects)

text \<open>
  C1 (as the specification states it, refuted): with own identity \<open>("@a", "D2")\<close> and
  remote identity \<open>("@a", "D1")\<close> the remote pair is lexicographically less than ours, yet
  \<open>connect\<close> does not initiate: no peer call is created.
\<close>

theorem C1_counterexample:
  "lex_less (remoteId (exMember ''@a'' ''D1'' ''@a'' ''D2''))
            (ownId (exMember ''@a'' ''D1'' ''@a'' ''D2''))
   \<and> \<not> shouldInitiateCall (exMember ''@a'' ''D1'' ''@a'' ''D2'')
   \<and> connect (Some (LocalMedia 0)) (utf16 ''c1'') (exMember ''@a'' ''D1'' ''@a'' ''D2'')
       = ((exMember ''@a'' ''D1'' ''@a'' ''D2'')\<lparr>localMedia := Some (LocalMedia 0)\<rparr>,
          [LogWrap ''connect''])"
  by (simp add: lex_less_def remoteId_def ownId_def exMember_def newMember_def userId_def
      deviceId_def shouldInitiateCall_def connect_def utf16_def)

text \<open>
  C1 (amended): \<open>Member.connect\<close> makes this side the initiator if and only if the remote
  \<open>(user_id, device_id)\<close> is lexicographically greater than our own, that is, the
  lexicographically lower side initiates: for the same user id, iff the remote device id is
  greater than ours; otherwise iff the remote user id is greater than ours. The initiating
  side creates a peer call with the fresh id and calls it with the local media; the other
  side creates no peer call, keeps the peer call reference it had and only stores the media.
  For two distinct participants this is the opposite of "the remote pair is less than ours".
\<close>

theorem C1_initiator_is_lower_side:
  "(shouldInitiateCall m \<longleftrightarrow> lex_less (ownId m) (remoteId m))
   \<and> (shouldInitiateCall m \<longleftrightarrow>
        (if userId m = ownUserId (options m)
         then ownDeviceId (options m) < deviceId m
         else ownUserId (options m) < userId m))
   \<and> connect lm newId m =
       (if lex_less (ownId m) (remoteId m)
        then (m\<lparr>localMedia := lm, peerCall := Some newId\<rparr>,
              [LogWrap ''connect'', PeerCallNew newId, PeerCallCall newId lm])
        else (m\<lparr>localMedia := lm\<rparr>, [LogWrap ''connect'']))
   \<and> (remoteId m \<noteq> ownId m \<longrightarrow>
        (shouldInitiateCall m \<longleftrightarrow> \<not> lex_less (remoteId m) (ownId m)))"
proof -
  have "shouldInitiateCall m \<longleftrightarrow> \<not> lex_less (remoteId m) (ownId m)"
    if "remoteId m \<noteq> ownId m"
    using that by (auto simp: shouldInitiateCall_lex lex_less_def remoteId_def ownId_def)
  then show ?thesis
    by (simp add: shouldInitiateCall_lex [symmetric] connect_def Let_def)
      (simp add: shouldInitiateCall_def)
qed

theorem C1_initiator_is_lower_side_witness:
  "shouldInitiateCall (exMember ''@a'' ''D2'' ''@a'' ''D1'')
   \<and> lex_less (ownId (exMember ''@a'' ''D2'' ''@a'' ''D1''))
               (remoteId (exMember ''@a'' ''D2'' ''@a'' ''D1''))
   \<and> peerCall (fst (connect (Some (LocalMedia 0)) (utf16 ''c1'')
         (exMember ''@a'' ''D2'' ''@a'' ''D1''))) = Some (utf16 ''c1'')"
  using C1_initiator_is_lower_side [of "exMember ''@a'' ''D2'' ''@a'' ''D1''"
      "Some (LocalMedia 0)" "utf16 ''c1''"]
  by (simp add: exMember_def newMember_def userId_def deviceId_def utf16_def
      lex_less_def ownId_def remoteId_def shouldInitiateCall_def)

section \<open>Retry policy and automatic answer\<close>

lemma emitUpdate_Ended_retry:
  assumes "pc_state pc = Ended" and "pc_hangupReason pc = Some r"
    and "r \<notin> set errorCodesWithoutRetry" and "retryCount m + 1 \<le> 3"
  shows "emitUpdate pc newId m =
           (fst (connect (localMedia m) newId (m\<lparr>peerCall := None, retryCount := retryCount m + 1\<rparr>)),
            [PeerCallDispose (pc_callId pc)]
            @ snd (connect (localMedia m) newId (m\<lparr>peerCall := None, retryCount := retryCount m + 1\<rparr>))
            @ [OptionsEmitUpdate])"
  using assms by (simp add: emitUpdate_def Let_def split_beta)

lemma emitUpdate_Ended_exhausted:
  assumes "pc_state pc = Ended" and "pc_hangupReason pc = Some r"
    and "r \<notin> set errorCodesWithoutRetry" and "\<not> retryCount m + 1 \<le> 3"
  shows "emitUpdate pc newId m =
           (m\<lparr>peerCall := None, retryCount := retryCount m + 1\<rparr>,
            [PeerCallDispose (pc_callId pc), OptionsEmitUpdate])"
  using assms by (simp add: emitUpdate_def Let_def)

lemma emitUpdate_Ended_no_retry:
  assumes "pc_state pc = Ended" and "pc_hangupReason pc = Some r"
    and "r \<in> set errorCodesWithoutRetry"
  shows "emitUpdate pc newId m =
           (m\<lparr>peerCall := None\<rparr>, [PeerCallDispose (pc_callId pc), OptionsEmitUpdate])"
  using assms by (simp add: emitUpdate_def Let_def)

lemma set_errorCodesWithoutRetry:
  "set errorCodesWithoutRetry =
     {UserHangup, AnsweredElsewhere, Replaced, UserBusy, Transfered, NewSession}"
  by (simp add: errorCodesWithoutRetry_def)

text \<open>
  C2: when the peer call reports \<open>Ended\<close> with a hangup reason \<open>r\<close>, the member runs
  \<open>connect\<close> again (every run of \<open>connect\<close> opens the log item "connect") if and only if
  \<open>r\<close> is not one of UserHangup, AnsweredElsewhere, Replaced, UserBusy, Transfered,
  NewSession and the retry count, incremented first, is at most 3. The retry count is
  incremented exactly for the reasons outside that set, and when \<open>connect\<close> runs it runs on
  the member with the incremented count and the old peer call dropped.
\<close>

theorem C2_retry_iff:
  assumes "pc_state pc = Ended" and "pc_hangupReason pc = Some r"
  shows "(LogWrap ''connect'' \<in> set (snd (emitUpdate pc newId m))
            \<longleftrightarrow> r \<notin> {UserHangup, AnsweredElsewhere, Replaced, UserBusy, Transfered, NewSession}
                \<and> retryCount m + 1 \<le> 3)
         \<and> retryCount (fst (emitUpdate pc newId m)) =
             (if r \<in> {UserHangup, AnsweredElsewhere, Replaced, UserBusy, Transfered, NewSession}
              then retryCount m else retryCount m + 1)
         \<and> emitUpdate pc newId m =
             (if r \<notin> {UserHangup, AnsweredElsewhere, Replaced, UserBusy, Transfered, NewSession}
                 \<and> retryCount m + 1 \<le> 3
              then (fst (connect (localMedia m) newId
                           (m\<lparr>peerCall := None, retryCount := retryCount m + 1\<rparr>)),
                    [PeerCallDispose (pc_callId pc)]
                    @ snd (connect (localMedia m) newId
                             (m\<lparr>peerCall := None, retryCount := retryCount m + 1\<rparr>))
                    @ [OptionsEmitUpdate])
              else (m\<lparr>peerCall := None,
                      retryCount := (if r \<in> {UserHangup, AnsweredElsewhere, Replaced, UserBusy,
                                               Transfered, NewSession}
                                     then retryCount m else retryCount m + 1)\<rparr>,
                    [PeerCallDispose (pc_callId pc), OptionsEmitUpdate]))"
proof (cases "r \<in> set errorCodesWithoutRetry")
  case True
  from emitUpdate_Ended_no_retry [OF assms True, of newId m] True
  show ?thesis by (simp add: set_errorCodesWithoutRetry)
next
  case out: False
  show ?thesis
  proof (cases "retryCount m + 1 \<le> 3")
    case True
    from emitUpdate_Ended_retry [OF assms out True, of newId] out True
    show ?thesis by (simp add: set_errorCodesWithoutRetry connect_effects)
  next
    case False
    from emitUpdate_Ended_exhausted [OF assms out False, of newId] out False
    show ?thesis by (simp add: set_errorCodesWithoutRetry)
  qed
qed

theorem C2_retry_iff_witness:
  "LogWrap ''connect''
     \<in> set (snd (emitUpdate (exPeerCall Ended (Some (OtherErrorCode (utf16 ''ice_failed''))))
                  (utf16 ''c1'') (exMember ''@b'' ''D1'' ''@a'' ''D1'')))
   \<and> retryCount (fst (emitUpdate (exPeerCall Ended (Some (OtherErrorCode (utf16 ''ice_failed''))))
                  (utf16 ''c1'') (exMember ''@b'' ''D1'' ''@a'' ''D1''))) = 1"
  using C2_retry_iff [of "exPeerCall Ended (Some (OtherErrorCode (utf16 ''ice_failed'')))"
      "OtherErrorCode (utf16 ''ice_failed'')" "utf16 ''c1''" "exMember ''@b'' ''D1'' ''@a'' ''D1''"]
  by (simp add: exPeerCall_def exMember_def newMember_def connect_effects)

text \<open>
  C9: when a peer call reports an update while its state is \<open>Ringing\<close>, the member calls
  \<open>answer\<close> on that peer call with the member's current local media, changes nothing in
  its own state and passes the update on. No other condition is consulted, so a peer call
  that an Invite has put into \<open>Ringing\<close> is answered without any local intent.
\<close>

theorem C9_ringing_answered:
  "pc_state pc = Ringing \<Longrightarrow>
     emitUpdate pc newId m =
       (m, [PeerCallAnswer (pc_callId pc) (localMedia m), OptionsEmitUpdate])"
  by (simp add: emitUpdate_def)

theorem C9_ringing_answered_witness:
  "emitUpdate (exPeerCall Ringing None) (utf16 ''c1'')
       ((exMember ''@b'' ''D1'' ''@a'' ''D1'')\<lparr>localMedia := Some (LocalMedia 7)\<rparr>) =
     ((exMember ''@b'' ''D1'' ''@a'' ''D1'')\<lparr>localMedia := Some (LocalMedia 7)\<rparr>,
      [PeerCallAnswer (utf16 ''c0'') (Some (LocalMedia 7)), OptionsEmitUpdate])"
  using C9_ringing_answered [of "exPeerCall Ringing None" "utf16 ''c1''"
      "(exMember ''@b'' ''D1'' ''@a'' ''D1'')\<lparr>localMedia := Some (LocalMedia 7)\<rparr>"]
  by (simp add: exPeerCall_def)

section \<open>Messages that arrive before the Invite\<close>

text \<open>
  C10: a message for our session that reaches a member without a peer call is dropped
  when it is not an Invite: the member is unchanged and nothing is done beyond linking the
  sync log, so nothing of the message is kept. A peer call exists afterwards if and only
  if the message was an Invite, and an Invite that arrives after a dropped message is
  handled as if the dropped message had never arrived: the new peer call receives
  the Invite only.
\<close>

theorem C10_dropped_before_invite:
  assumes "dest_session_id message = sessionId (options m)" and "peerCall m = None"
  shows "(msg_type message \<noteq> Invite \<longrightarrow>
            handleDeviceMessage message devId m = (m, [SyncLogRefDetached]))
         \<and> (peerCall (fst (handleDeviceMessage message devId m)) \<noteq> None
              \<longleftrightarrow> msg_type message = Invite)
         \<and> (msg_type message \<noteq> Invite \<and> msg_type invite = Invite
              \<and> dest_session_id invite = sessionId (options m) \<longrightarrow>
            handleDeviceMessage invite devId (fst (handleDeviceMessage message devId m)) =
              (m\<lparr>peerCall := Some (call_id invite)\<rparr>,
               [SyncLogRefDetached, PeerCallNew (call_id invite),
                PeerCallHandleIncoming (call_id invite) invite devId]))"
  using assms by (simp add: handleDeviceMessage_def)

theorem C10_dropped_before_invite_witness:
  "handleDeviceMessage (exMessage 1 Candidates ''c5'' ''S1'' ''S0'') (utf16 ''D1'')
       (exMember ''@b'' ''D1'' ''@a'' ''D1'') =
     (exMember ''@b'' ''D1'' ''@a'' ''D1'', [SyncLogRefDetached])
   \<and> handleDeviceMessage (exMessage 2 Invite ''c5'' ''S1'' ''S0'') (utf16 ''D1'')
       (fst (handleDeviceMessage (exMessage 1 Candidates ''c5'' ''S1'' ''S0'') (utf16 ''D1'')
          (exMember ''@b'' ''D1'' ''@a'' ''D1''))) =
     ((exMember ''@b'' ''D1'' ''@a'' ''D1'')\<lparr>peerCall := Some (utf16 ''c5'')\<rparr>,
      [SyncLogRefDetached, PeerCallNew (utf16 ''c5''),
       PeerCallHandleIncoming (utf16 ''c5'') (exMessage 2 Invite ''c5'' ''S1'' ''S0'')
         (utf16 ''D1'')])"
proof -
  let ?m = "exMember ''@b'' ''D1'' ''@a'' ''D1''"
  let ?c = "exMessage 1 Candidates ''c5'' ''S1'' ''S0''"
  let ?i = "exMessage 2 Invite ''c5'' ''S1'' ''S0''"
  have dest: "dest_session_id ?c = sessionId (options ?m)"
    by (simp add: exMessage_def exMember_def newMember_def)
  have none: "peerCall ?m = None"
    by (simp add: exMember_def newMember_def)
  have types: "msg_type ?c \<noteq> Invite" "msg_type ?i = Invite"
    "dest_session_id ?i = sessionId (options ?m)" "call_id ?i = utf16 ''c5''"
    by (simp_all add: exMessage_def exMember_def newMember_def)
  note t = C10_dropped_before_invite [OF dest none, of "utf16 ''D1''" ?i]
  from t types(1) have a: "handleDeviceMessage ?c (utf16 ''D1'') ?m = (?m, [SyncLogRefDetached])"
    by blast
  from t types(1-3)
  have b: "handleDeviceMessage ?i (utf16 ''D1'') (fst (handleDeviceMessage ?c (utf16 ''D1'') ?m)) =
             (?m\<lparr>peerCall := Some (call_id ?i)\<rparr>,
              [SyncLogRefDetached, PeerCallNew (call_id ?i),
               PeerCallHandleIncoming (call_id ?i) ?i (utf16 ''D1'')])"
    by blast
  from a b [unfolded types(4)] show ?thesis by (rule conjI)
qed

section \<open>Facts about the buffer, the members map and the membership update\<close>

lemma delivered_append [simp]: "delivered (xs @ ys) = delivered xs @ delivered ys"
  by (induction xs rule: delivered.induct) simp_all

lemma delivered_ByMember [simp]: "delivered (map (ByMember k) es) = []"
  by (induction es) simp_all

lemma handleDeviceMessage_frame:
  "fst (handleDeviceMessage message d m) = m\<lparr>peerCall := peerCall (fst (handleDeviceMessage message d m))\<rparr>"
  by (simp add: handleDeviceMessage_def Let_def split: option.splits)

lemma handleDeviceMessage_keeps [simp]:
  "memberSessionId (fst (handleDeviceMessage message d m)) = memberSessionId m"
  "deviceId (fst (handleDeviceMessage message d m)) = deviceId m"
  "userId (fst (handleDeviceMessage message d m)) = userId m"
  "retryCount (fst (handleDeviceMessage message d m)) = retryCount m"
  "localMedia (fst (handleDeviceMessage message d m)) = localMedia m"
  by (subst handleDeviceMessage_frame, simp add: memberSessionId_def deviceId_def userId_def)+

lemma flushLoop_remaining:
  "fst (snd (flushLoop k m ms)) = filter (\<lambda>x. sender_session_id x \<noteq> memberSessionId m) ms"
  by (induction ms arbitrary: m) (simp_all add: split_beta)

lemma flushLoop_delivered:
  "delivered (snd (snd (flushLoop k m ms))) =
     map (Pair k) (filter (\<lambda>x. sender_session_id x = memberSessionId m) ms)"
  by (induction ms arbitrary: m) (simp_all add: split_beta)

lemma flushLoop_keeps [simp]:
  "memberSessionId (fst (flushLoop k m ms)) = memberSessionId m"
  "deviceId (fst (flushLoop k m ms)) = deviceId m"
  "userId (fst (flushLoop k m ms)) = userId m"
  "retryCount (fst (flushLoop k m ms)) = retryCount m"
  "localMedia (fst (flushLoop k m ms)) = localMedia m"
  by (induction ms arbitrary: m; simp add: split_beta)+

lemma flush_buffered:
  "buffered (fst (snd (flushPendingIncomingDeviceMessages m g))) k =
     (if k = getMemberKey (userId m) (deviceId m)
      then filter (\<lambda>x. sender_session_id x \<noteq> memberSessionId m) (buffered g k)
      else buffered g k)"
  by (auto simp: flushPendingIncomingDeviceMessages_def buffered_def Let_def split_beta
      flushLoop_remaining split: option.splits)

lemma flush_delivered:
  "delivered (snd (snd (flushPendingIncomingDeviceMessages m g))) =
     map (Pair (getMemberKey (userId m) (deviceId m)))
       (filter (\<lambda>x. sender_session_id x = memberSessionId m)
          (buffered g (getMemberKey (userId m) (deviceId m))))"
  by (simp add: flushPendingIncomingDeviceMessages_def buffered_def Let_def split_beta
      flushLoop_delivered split: option.splits)

lemma flush_keeps [simp]:
  "memberSessionId (fst (flushPendingIncomingDeviceMessages m g)) = memberSessionId m"
  "retryCount (fst (flushPendingIncomingDeviceMessages m g)) = retryCount m"
  "localMedia (fst (flushPendingIncomingDeviceMessages m g)) = localMedia m"
  "members (fst (snd (flushPendingIncomingDeviceMessages m g))) = members g"
  "joinedData (fst (snd (flushPendingIncomingDeviceMessages m g))) = joinedData g"
  "gc_state (fst (snd (flushPendingIncomingDeviceMessages m g))) = gc_state g"
  by (simp_all add: flushPendingIncomingDeviceMessages_def Let_def split_beta split: option.splits)

lemma buffered_simps [simp]:
  "buffered (g\<lparr>members := ms\<rparr>) = buffered g"
  "buffered (g\<lparr>joinedData := jd\<rparr>) = buffered g"
  "buffered (g\<lparr>gc_state := st\<rparr>) = buffered g"
  by (simp_all add: buffered_def fun_eq_iff)

lemma GroupCall_handleDeviceMessage_deliver:
  assumes "sessionMatches g (getMemberKey uid did) message"
  shows "delivered (snd (GroupCall_handleDeviceMessage message uid did g)) =
           [(getMemberKey uid did, message)]"
    and "bufferedDeviceMessages (fst (GroupCall_handleDeviceMessage message uid did g)) =
           bufferedDeviceMessages g"
  using assms
  by (auto simp: GroupCall_handleDeviceMessage_def sessionMatches_def Let_def split_beta
      split: option.splits)

lemma GroupCall_handleDeviceMessage_buffer:
  assumes "\<not> sessionMatches g (getMemberKey uid did) message"
  shows "GroupCall_handleDeviceMessage message uid did g =
           (g\<lparr>bufferedDeviceMessages :=
                (bufferedDeviceMessages g)
                  (getMemberKey uid did \<mapsto> set_add (buffered g (getMemberKey uid did)) message)\<rparr>,
            [GLog ''call: buffering to_device message, member not found''])"
  using assms
  by (simp add: GroupCall_handleDeviceMessage_def sessionMatches_def Let_def buffered_def
      split: option.splits)

lemma set_add_fresh: "ref message \<notin> ref ` set ms \<Longrightarrow> set_add ms message = ms @ [message]"
  by (simp add: set_add_def)

lemma connectToMember_keeps [simp]:
  "memberSessionId (fst (connectToMember env jd m)) = memberSessionId m"
  "deviceId (fst (connectToMember env jd m)) = deviceId m"
  "userId (fst (connectToMember env jd m)) = userId m"
  "retryCount (fst (connectToMember env jd m)) = retryCount m"
  by (simp_all add: connectToMember_def connect_def Let_def split_beta memberSessionId_def
      deviceId_def userId_def)

lemma connectToMember_delivered [simp]: "delivered (snd (connectToMember env jd m)) = []"
  by (simp add: connectToMember_def Let_def split_beta)

lemma newMember_simps [simp]:
  "memberSessionId (newMember rm dev opts) = session_id dev"
  "deviceId (newMember rm dev opts) = device_id dev"
  "userId (newMember rm dev opts) = rm_userId rm"
  "retryCount (newMember rm dev opts) = 0"
  by (simp_all add: newMember_def memberSessionId_def deviceId_def userId_def)

lemma updateCallInfo_simps [simp]:
  "memberSessionId (updateCallInfo dev m) = session_id dev"
  "deviceId (updateCallInfo dev m) = device_id dev"
  "userId (updateCallInfo dev m) = userId m"
  by (simp_all add: updateCallInfo_def memberSessionId_def deviceId_def userId_def)

lemma addMember_delivered:
  "delivered (snd (addMember env key rm dev g)) =
     map (Pair (getMemberKey (rm_userId rm) (device_id dev)))
       (filter (\<lambda>x. sender_session_id x = session_id dev)
          (buffered g (getMemberKey (rm_userId rm) (device_id dev))))"
  by (cases "joinedData g") (simp_all add: addMember_def Let_def split_beta flush_delivered)

lemma addMember_buffered:
  "buffered (fst (addMember env key rm dev g)) k =
     (if k = getMemberKey (rm_userId rm) (device_id dev)
      then filter (\<lambda>x. sender_session_id x \<noteq> session_id dev) (buffered g k)
      else buffered g k)"
  by (cases "joinedData g") (simp_all add: addMember_def Let_def split_beta flush_buffered)

lemma memberKeysOk_lookup:
  "memberKeysOk g \<Longrightarrow> map_of (members g) k = Some m \<Longrightarrow> getMemberKey (userId m) (deviceId m) = k"
  by (auto simp: memberKeysOk_def list_all_iff dest!: map_of_SomeD)

lemma updateDeviceMembership_delivered:
  assumes "memberKeysOk g" and "\<not> (uid = ownUserId (memberOptions g) \<and> device_id dev = ownDeviceId (memberOptions g))"
    and "rm_userId rm = uid"
  shows "delivered (snd (updateDeviceMembership env uid rm ts idx dev g)) =
           map (Pair (getMemberKey uid (device_id dev)))
             (filter (\<lambda>x. sender_session_id x = session_id dev)
                (buffered g (getMemberKey uid (device_id dev))))"
proof (cases "map_of (members g) (getMemberKey uid (device_id dev))")
  case None
  with assms show ?thesis
    by (auto simp: updateDeviceMembership_def Let_def addMember_delivered)
next
  case (Some m)
  show ?thesis
  proof (cases "memberSessionId m = session_id dev")
    case True
    from memberKeysOk_lookup [OF assms(1) Some] have "userId m = uid"
      by (simp add: getMemberKey_def)
    with assms True Some show ?thesis
      by (auto simp: updateDeviceMembership_def Let_def split_beta flush_delivered)
  next
    case False
    with assms Some show ?thesis
      by (auto simp: updateDeviceMembership_def Let_def split_beta addMember_delivered)
  qed
qed

lemma updateDeviceMembership_buffered:
  assumes "memberKeysOk g" and "\<not> (uid = ownUserId (memberOptions g) \<and> device_id dev = ownDeviceId (memberOptions g))"
    and "rm_userId rm = uid"
  shows "buffered (fst (updateDeviceMembership env uid rm ts idx dev g)) k =
           (if k = getMemberKey uid (device_id dev)
            then filter (\<lambda>x. sender_session_id x \<noteq> session_id dev) (buffered g k)
            else buffered g k)"
proof (cases "map_of (members g) (getMemberKey uid (device_id dev))")
  case None
  with assms show ?thesis
    by (auto simp: updateDeviceMembership_def Let_def addMember_buffered)
next
  case (Some m)
  show ?thesis
  proof (cases "memberSessionId m = session_id dev")
    case True
    from memberKeysOk_lookup [OF assms(1) Some] have "userId m = uid"
      by (simp add: getMemberKey_def)
    with assms True Some show ?thesis
      by (auto simp: updateDeviceMembership_def Let_def split_beta flush_buffered)
  next
    case False
    with assms Some show ?thesis
      by (auto simp: updateDeviceMembership_def Let_def split_beta addMember_buffered)
  qed
qed

lemma flood_buffered:
  assumes "members g = []" and "bufferedDeviceMessages g = Map.empty"
  shows "members (flood n g) = []
         \<and> buffered (flood n g) (getMemberKey (utf16 ''@b'') (utf16 ''D1'')) =
             map (\<lambda>i. exMessage i Candidates ''c5'' ''S7'' ''S0'') [0..<n]"
proof (induction n)
  case 0
  from assms show ?case by (simp add: buffered_def)
next
  case (Suc n)
  let ?k = "getMemberKey (utf16 ''@b'') (utf16 ''D1'')"
  let ?msg = "exMessage n Candidates ''c5'' ''S7'' ''S0''"
  from Suc have no: "\<not> sessionMatches (flood n g) ?k ?msg"
    by (simp add: sessionMatches_def)
  from Suc have fresh: "ref ?msg \<notin> ref ` set (buffered (flood n g) ?k)"
    by (auto simp: exMessage_def)
  from GroupCall_handleDeviceMessage_buffer [OF no] set_add_fresh [OF fresh] Suc
  show ?case by (simp add: buffered_def)
qed

lemma map_set_absent: "k \<notin> fst ` set ms \<Longrightarrow> map_set k v ms = ms @ [(k, v)]"
  by (induction ms) auto

lemma map_delete_absent: "k \<notin> fst ` set (map_delete k ms)"
  by (auto simp: map_delete_def)

lemma map_of_map_set: "map_of (map_set k v ms) k' = (if k' = k then Some v else map_of ms k')"
  by (induction ms) auto

lemma map_of_map_delete: "map_of (map_delete k ms) k' = (if k' = k then None else map_of ms k')"
  by (induction ms) (auto simp: map_delete_def)

lemma list_all_map_set: "P (k, v) \<Longrightarrow> list_all P ms \<Longrightarrow> list_all P (map_set k v ms)"
  by (induction ms) auto

lemma list_all_map_delete: "list_all P ms \<Longrightarrow> list_all P (map_delete k ms)"
  by (simp add: map_delete_def list_all_iff)

lemma handleDeviceMessage_no_LogWrap: "LogWrap s \<notin> set (snd (handleDeviceMessage message d m))"
  by (auto simp: handleDeviceMessage_def Let_def split: option.splits)

lemma flushLoop_no_LogWrap: "ByMember k' (LogWrap s) \<notin> set (snd (snd (flushLoop k m ms)))"
  by (induction ms arbitrary: m) (auto simp: split_beta handleDeviceMessage_no_LogWrap)

lemma flush_no_LogWrap:
  "ByMember k' (LogWrap s) \<notin> set (snd (snd (flushPendingIncomingDeviceMessages m g)))"
  by (simp add: flushPendingIncomingDeviceMessages_def Let_def split_beta flushLoop_no_LogWrap
      split: option.splits)

lemma flush_memberOptions [simp]:
  "memberOptions (fst (snd (flushPendingIncomingDeviceMessages m g))) = memberOptions g"
  by (simp add: flushPendingIncomingDeviceMessages_def Let_def split_beta split: option.splits)

lemma connectIfJoined_keeps [simp]:
  "memberSessionId (fst (connectIfJoined env g m)) = memberSessionId m"
  "deviceId (fst (connectIfJoined env g m)) = deviceId m"
  "userId (fst (connectIfJoined env g m)) = userId m"
  "retryCount (fst (connectIfJoined env g m)) = retryCount m"
  by (simp_all add: connectIfJoined_def split: option.splits)

lemma connectIfJoined_effects:
  "snd (connectIfJoined env g m) =
     (case joinedData g of
        None \<Rightarrow> []
      | Some jd \<Rightarrow>
          map (ByMember (getMemberKey (userId m) (deviceId m)))
            (snd (connect (Some (memberMedia env (jd_localMedia jd) (getMemberKey (userId m) (deviceId m))))
                    (mkId env (getMemberKey (userId m) (deviceId m))) m)))"
  by (simp add: connectIfJoined_def connectToMember_def Let_def split_beta split: option.splits)

lemma connectIfJoined_logs:
  "ByMember (getMemberKey (userId m) (deviceId m)) (LogWrap ''connect'') \<in> set (snd (connectIfJoined env g m))
     \<longleftrightarrow> joinedData g \<noteq> None"
  by (cases "joinedData g") (auto simp: connectIfJoined_effects connect_effects)

lemma disconnect_no_connect: "LogWrap ''connect'' \<notin> set (snd (disconnect h m))"
  by (auto simp: disconnect_def split: option.splits)

lemma addMember_eq:
  "addMember env key rm dev g =
     ((fst (snd (flushPendingIncomingDeviceMessages
                   (fst (connectIfJoined env g (newMember rm dev (memberOptions g)))) g)))
        \<lparr>members := map_set key
            (fst (flushPendingIncomingDeviceMessages
                    (fst (connectIfJoined env g (newMember rm dev (memberOptions g)))) g))
            (members g)\<rparr>,
      GLog ''add'' # snd (connectIfJoined env g (newMember rm dev (memberOptions g)))
        @ snd (snd (flushPendingIncomingDeviceMessages
                      (fst (connectIfJoined env g (newMember rm dev (memberOptions g)))) g)))"
  by (simp add: addMember_def connectIfJoined_def Let_def split_beta)

lemma connectIfJoined_members [simp]:
  "connectIfJoined env (g\<lparr>members := ms\<rparr>) m = connectIfJoined env g m"
  by (simp add: connectIfJoined_def)

lemma flush_members_update:
  "flushPendingIncomingDeviceMessages m (g\<lparr>members := ms\<rparr>) =
     (fst (flushPendingIncomingDeviceMessages m g),
      (fst (snd (flushPendingIncomingDeviceMessages m g)))\<lparr>members := ms\<rparr>,
      snd (snd (flushPendingIncomingDeviceMessages m g)))"
  by (simp add: flushPendingIncomingDeviceMessages_def Let_def split_beta split: option.splits)

lemma updateDeviceMembership_session_changed:
  assumes old: "map_of (members g) (getMemberKey uid (device_id dev)) = Some old"
    and changed: "memberSessionId old \<noteq> session_id dev"
    and notown: "\<not> (uid = ownUserId (memberOptions g) \<and> device_id dev = ownDeviceId (memberOptions g))"
  shows "updateDeviceMembership env uid rm ts idx dev g =
           ((fst (snd (flushPendingIncomingDeviceMessages
                   (fst (connectIfJoined env g (newMember rm dev (memberOptions g)))) g)))
              \<lparr>members := map_delete (getMemberKey uid (device_id dev)) (members g)
                  @ [(getMemberKey uid (device_id dev),
                      fst (flushPendingIncomingDeviceMessages
                        (fst (connectIfJoined env g (newMember rm dev (memberOptions g)))) g))]\<rparr>,
            GLog ''removedSessionId''
            # map (ByMember (getMemberKey uid (device_id dev))) (snd (disconnect False old))
            @ GLog ''add''
            # snd (connectIfJoined env g (newMember rm dev (memberOptions g)))
            @ snd (snd (flushPendingIncomingDeviceMessages
                      (fst (connectIfJoined env g (newMember rm dev (memberOptions g)))) g)))"
  using assms
  by (auto simp: updateDeviceMembership_def Let_def split_beta addMember_eq flush_members_update
      map_set_absent [OF map_delete_absent])

lemma flush_keeps2 [simp]:
  "deviceId (fst (flushPendingIncomingDeviceMessages m g)) = deviceId m"
  "userId (fst (flushPendingIncomingDeviceMessages m g)) = userId m"
  by (simp_all add: flushPendingIncomingDeviceMessages_def Let_def split_beta split: option.splits)

lemma updateDeviceMembership_memberOptions [simp]:
  "memberOptions (fst (updateDeviceMembership env uid rm ts idx dev g)) = memberOptions g"
  by (auto simp: updateDeviceMembership_def Let_def split_beta addMember_eq split: option.splits)

lemma updateDeviceMembership_memberKeysOk:
  assumes "memberKeysOk g" and "rm_userId rm = uid"
  shows "memberKeysOk (fst (updateDeviceMembership env uid rm ts idx dev g))"
proof (cases "map_of (members g) (getMemberKey uid (device_id dev))")
  case None
  with assms show ?thesis
    by (auto simp: updateDeviceMembership_def Let_def split_beta addMember_eq memberKeysOk_def
        getMemberKey_def intro!: list_all_map_set)
next
  case (Some m)
  from memberKeysOk_lookup [OF assms(1) Some] have "userId m = uid"
    by (simp add: getMemberKey_def)
  with assms Some show ?thesis
    by (auto simp: updateDeviceMembership_def Let_def split_beta addMember_eq memberKeysOk_def
        getMemberKey_def intro!: list_all_map_set list_all_map_delete)
qed

section \<open>Facts about the loop body of the membership update\<close>

lemma deliverAll_keeps [simp]:
  "memberSessionId (fst (deliverAll k m ms)) = memberSessionId m"
  "deviceId (fst (deliverAll k m ms)) = deviceId m"
  "userId (fst (deliverAll k m ms)) = userId m"
  "retryCount (fst (deliverAll k m ms)) = retryCount m"
  by (induction ms arbitrary: m; simp add: Let_def)+

lemma deliverAll_delivered [simp]: "delivered (snd (deliverAll k m ms)) = map (Pair k) ms"
  by (induction ms arbitrary: m) (simp_all add: Let_def)

lemma flushLoop_deliverAll:
  "flushLoop k m ms =
     (fst (deliverAll k m (filter (\<lambda>x. sender_session_id x = memberSessionId m) ms)),
      filter (\<lambda>x. sender_session_id x \<noteq> memberSessionId m) ms,
      snd (deliverAll k m (filter (\<lambda>x. sender_session_id x = memberSessionId m) ms)))"
  by (induction ms arbitrary: m) (simp_all add: split_beta Let_def)

lemma flush_deliverAll:
  "fst (flushPendingIncomingDeviceMessages m g) =
     fst (deliverAll (getMemberKey (userId m) (deviceId m)) m
            (filter (\<lambda>x. sender_session_id x = memberSessionId m)
               (buffered g (getMemberKey (userId m) (deviceId m)))))"
  "snd (snd (flushPendingIncomingDeviceMessages m g)) =
     snd (deliverAll (getMemberKey (userId m) (deviceId m)) m
            (filter (\<lambda>x. sender_session_id x = memberSessionId m)
               (buffered g (getMemberKey (userId m) (deviceId m)))))"
  by (simp_all add: flushPendingIncomingDeviceMessages_def buffered_def Let_def split_beta
      flushLoop_deliverAll split: option.splits)

lemma map_of_append_last: "k \<notin> fst ` set ms \<Longrightarrow> map_of (ms @ [(k, v)]) k' = (if k' = k then Some v else map_of ms k')"
  by (induction ms) auto

lemma flush_other_fields [simp]:
  "deviceIndex (fst (snd (flushPendingIncomingDeviceMessages m g))) = deviceIndex g"
  "callContent (fst (snd (flushPendingIncomingDeviceMessages m g))) = callContent g"
  "gc_id (fst (snd (flushPendingIncomingDeviceMessages m g))) = gc_id g"
  by (simp_all add: flushPendingIncomingDeviceMessages_def Let_def split_beta split: option.splits)

lemma updateDeviceMembership_exact:
  assumes ok: "memberKeysOk g"
    and notown: "\<not> (uid = ownUserId (memberOptions g) \<and> device_id dev = ownDeviceId (memberOptions g))"
    and rm: "rm_userId rm = uid"
  shows "snd (updateDeviceMembership env uid rm ts idx dev g) =
           installEffects env uid rm dev g @ snd (flushedMember env uid rm dev g)"
    and "map_of (members (fst (updateDeviceMembership env uid rm ts idx dev g))) k =
           (if k = getMemberKey uid (device_id dev) then Some (fst (flushedMember env uid rm dev g))
            else map_of (members g) k)"
    and "joinedData (fst (updateDeviceMembership env uid rm ts idx dev g)) = joinedData g"
    and "gc_state (fst (updateDeviceMembership env uid rm ts idx dev g)) = gc_state g"
proof -
  let ?key = "getMemberKey uid (device_id dev)"
  let ?new = "newMember rm dev (memberOptions g)"
  have kn: "getMemberKey (userId (fst (connectIfJoined env g ?new)))
              (deviceId (fst (connectIfJoined env g ?new))) = ?key"
    using rm by simp
  have all: "snd (updateDeviceMembership env uid rm ts idx dev g) =
           installEffects env uid rm dev g @ snd (flushedMember env uid rm dev g)
      \<and> map_of (members (fst (updateDeviceMembership env uid rm ts idx dev g))) k =
           (if k = ?key then Some (fst (flushedMember env uid rm dev g)) else map_of (members g) k)
      \<and> joinedData (fst (updateDeviceMembership env uid rm ts idx dev g)) = joinedData g
      \<and> gc_state (fst (updateDeviceMembership env uid rm ts idx dev g)) = gc_state g"
  proof (cases "map_of (members g) ?key")
    case None
    with notown kn rm show ?thesis
      by (auto simp: updateDeviceMembership_def Let_def addMember_eq installEffects_def
          flushedMember_def memberBeforeFlush_def flush_deliverAll map_of_map_set)
  next
    case (Some m)
    show ?thesis
    proof (cases "memberSessionId m = session_id dev")
      case True
      from memberKeysOk_lookup [OF ok Some] have u: "userId m = uid"
        by (simp add: getMemberKey_def)
      with notown rm True Some show ?thesis
        by (auto simp: updateDeviceMembership_def Let_def split_beta installEffects_def
            flushedMember_def memberBeforeFlush_def flush_deliverAll map_of_map_set)
    next
      case False
      with notown kn rm Some show ?thesis
        by (auto simp: updateDeviceMembership_def Let_def split_beta addMember_eq installEffects_def
            flushedMember_def memberBeforeFlush_def flush_deliverAll flush_members_update
            map_of_map_set map_of_map_delete)
    qed
  qed
  from all show "snd (updateDeviceMembership env uid rm ts idx dev g) =
           installEffects env uid rm dev g @ snd (flushedMember env uid rm dev g)" by blast
  from all show "map_of (members (fst (updateDeviceMembership env uid rm ts idx dev g))) k =
           (if k = getMemberKey uid (device_id dev) then Some (fst (flushedMember env uid rm dev g))
            else map_of (members g) k)" by blast
  from all show "joinedData (fst (updateDeviceMembership env uid rm ts idx dev g)) = joinedData g" by blast
  from all show "gc_state (fst (updateDeviceMembership env uid rm ts idx dev g)) = gc_state g" by blast
qed

lemma memberBeforeFlush_cong:
  assumes "map_of (members g') (getMemberKey uid (device_id dev)) = map_of (members g) (getMemberKey uid (device_id dev))"
    and "joinedData g' = joinedData g" and "memberOptions g' = memberOptions g"
  shows "memberBeforeFlush env uid rm dev g' = memberBeforeFlush env uid rm dev g"
  using assms by (simp add: memberBeforeFlush_def connectIfJoined_def split: option.splits)

lemma flushedMember_cong:
  assumes "map_of (members g') (getMemberKey uid (device_id dev)) = map_of (members g) (getMemberKey uid (device_id dev))"
    and "joinedData g' = joinedData g" and "memberOptions g' = memberOptions g"
    and "buffered g' (getMemberKey uid (device_id dev)) = buffered g (getMemberKey uid (device_id dev))"
  shows "flushedMember env uid rm dev g' = flushedMember env uid rm dev g"
  using assms memberBeforeFlush_cong [OF assms(1-3)] by (simp add: flushedMember_def)

lemma flushedMember_delivered:
  "delivered (snd (flushedMember env uid rm dev g)) =
     map (Pair (getMemberKey uid (device_id dev)))
       (filter (\<lambda>x. sender_session_id x = session_id dev)
          (buffered g (getMemberKey uid (device_id dev))))"
  by (simp add: flushedMember_def)

lemma updateDevices_exact:
  assumes "memberKeysOk g" and "rm_userId rm = uid" and "uid \<noteq> ownUserId (memberOptions g)"
    and "distinct (map device_id devs)"
  shows "delivered (snd (updateDevices env uid rm ts idx devs g)) =
           concat (map (\<lambda>dev. delivered (snd (flushedMember env uid rm dev g))) devs)
         \<and> (\<forall>k. map_of (members (fst (updateDevices env uid rm ts idx devs g))) k =
                (case find (\<lambda>dev. getMemberKey uid (device_id dev) = k) devs of
                   None \<Rightarrow> map_of (members g) k
                 | Some dev \<Rightarrow> Some (fst (flushedMember env uid rm dev g))))
         \<and> (\<forall>k. buffered (fst (updateDevices env uid rm ts idx devs g)) k =
                (case find (\<lambda>dev. getMemberKey uid (device_id dev) = k) devs of
                   None \<Rightarrow> buffered g k
                 | Some dev \<Rightarrow> filter (\<lambda>x. sender_session_id x \<noteq> session_id dev) (buffered g k)))
         \<and> memberKeysOk (fst (updateDevices env uid rm ts idx devs g))
         \<and> memberOptions (fst (updateDevices env uid rm ts idx devs g)) = memberOptions g
         \<and> joinedData (fst (updateDevices env uid rm ts idx devs g)) = joinedData g
         \<and> gc_state (fst (updateDevices env uid rm ts idx devs g)) = gc_state g"
  using assms
proof (induction devs arbitrary: g idx)
  case Nil
  then show ?case by simp
next
  case (Cons d ds)
  let ?g1 = "fst (updateDeviceMembership env uid rm ts idx d g)"
  let ?kd = "getMemberKey uid (device_id d)"
  from Cons.prems have notown: "\<not> (uid = ownUserId (memberOptions g) \<and> device_id d = ownDeviceId (memberOptions g))"
    by simp
  note ex = updateDeviceMembership_exact [OF Cons.prems(1) notown Cons.prems(2), of env ts idx]
  note bu = updateDeviceMembership_buffered [OF Cons.prems(1) notown Cons.prems(2), of env ts idx]
  note de = updateDeviceMembership_delivered [OF Cons.prems(1) notown Cons.prems(2), of env ts idx]
  have ok1: "memberKeysOk ?g1"
    by (rule updateDeviceMembership_memberKeysOk [OF Cons.prems(1,2)])
  have own1: "uid \<noteq> ownUserId (memberOptions ?g1)"
    using Cons.prems(3) by simp
  from Cons.prems(4) have dist: "distinct (map device_id ds)" and notin: "device_id d \<notin> device_id ` set ds"
    by simp_all
  note ih = Cons.IH [OF ok1 Cons.prems(2) own1 dist, of "Suc idx"]
  have other: "getMemberKey uid (device_id x) \<noteq> ?kd" if "x \<in> set ds" for x
  proof
    assume "getMemberKey uid (device_id x) = ?kd"
    then have "device_id x = device_id d" by (simp add: getMemberKey_def)
    with that notin show False by (metis imageI)
  qed
  have same: "flushedMember env uid rm x ?g1 = flushedMember env uid rm x g" if "x \<in> set ds" for x
    using other [OF that]
    by (intro flushedMember_cong) (simp_all add: ex bu)
  have nofind: "find (\<lambda>dev. getMemberKey uid (device_id dev) = ?kd) ds = None"
    using other by (auto simp: find_None_iff)
  have findsame: "find (\<lambda>dev. getMemberKey uid (device_id dev) = k) ds = Some x \<Longrightarrow> x \<in> set ds" for k x
    by (auto simp: find_Some_iff)
  from ih have ihd: "delivered (snd (updateDevices env uid rm ts (Suc idx) ds ?g1)) =
           concat (map (\<lambda>dev. delivered (snd (flushedMember env uid rm dev ?g1))) ds)"
    and ihm: "\<And>k. map_of (members (fst (updateDevices env uid rm ts (Suc idx) ds ?g1))) k =
                (case find (\<lambda>dev. getMemberKey uid (device_id dev) = k) ds of
                   None \<Rightarrow> map_of (members ?g1) k
                 | Some dev \<Rightarrow> Some (fst (flushedMember env uid rm dev ?g1)))"
    and ihb: "\<And>k. buffered (fst (updateDevices env uid rm ts (Suc idx) ds ?g1)) k =
                (case find (\<lambda>dev. getMemberKey uid (device_id dev) = k) ds of
                   None \<Rightarrow> buffered ?g1 k
                 | Some dev \<Rightarrow> filter (\<lambda>x. sender_session_id x \<noteq> session_id dev) (buffered ?g1 k))"
    and ihr: "memberKeysOk (fst (updateDevices env uid rm ts (Suc idx) ds ?g1))"
      "memberOptions (fst (updateDevices env uid rm ts (Suc idx) ds ?g1)) = memberOptions ?g1"
      "joinedData (fst (updateDevices env uid rm ts (Suc idx) ds ?g1)) = joinedData ?g1"
      "gc_state (fst (updateDevices env uid rm ts (Suc idx) ds ?g1)) = gc_state ?g1"
    by blast+
  have step: "updateDevices env uid rm ts idx (d # ds) g =
      (fst (updateDevices env uid rm ts (Suc idx) ds ?g1),
       snd (updateDeviceMembership env uid rm ts idx d g)
       @ snd (updateDevices env uid rm ts (Suc idx) ds ?g1))"
    by (simp add: split_beta)
  have dsame: "map (\<lambda>dev. delivered (snd (flushedMember env uid rm dev ?g1))) ds =
               map (\<lambda>dev. delivered (snd (flushedMember env uid rm dev g))) ds"
    using same by simp
  have d: "delivered (snd (updateDevices env uid rm ts idx (d # ds) g)) =
           concat (map (\<lambda>dev. delivered (snd (flushedMember env uid rm dev g))) (d # ds))"
  proof -
    have "delivered (snd (updateDeviceMembership env uid rm ts idx d g)) =
          delivered (snd (flushedMember env uid rm d g))"
      by (simp add: de flushedMember_delivered)
    then show ?thesis unfolding step by (simp add: ihd dsame)
  qed
  have m: "map_of (members (fst (updateDevices env uid rm ts idx (d # ds) g))) k =
                (case find (\<lambda>dev. getMemberKey uid (device_id dev) = k) (d # ds) of
                   None \<Rightarrow> map_of (members g) k
                 | Some dev \<Rightarrow> Some (fst (flushedMember env uid rm dev g)))" for k
  proof (cases "k = ?kd")
    case True
    then show ?thesis unfolding step by (simp add: ihm nofind ex)
  next
    case False
    then have neq: "getMemberKey uid (device_id d) \<noteq> k" by simp
    show ?thesis
    proof (cases "find (\<lambda>dev. getMemberKey uid (device_id dev) = k) ds")
      case None
      with False neq show ?thesis unfolding step by (simp add: ihm ex)
    next
      case (Some x)
      with same [OF findsame [OF Some]] False neq show ?thesis
        unfolding step by (simp add: ihm)
    qed
  qed
  have b: "buffered (fst (updateDevices env uid rm ts idx (d # ds) g)) k =
                (case find (\<lambda>dev. getMemberKey uid (device_id dev) = k) (d # ds) of
                   None \<Rightarrow> buffered g k
                 | Some dev \<Rightarrow> filter (\<lambda>x. sender_session_id x \<noteq> session_id dev) (buffered g k))" for k
  proof (cases "k = ?kd")
    case True
    then show ?thesis unfolding step by (simp add: ihb nofind bu)
  next
    case False
    then have neq: "getMemberKey uid (device_id d) \<noteq> k" by simp
    with False show ?thesis unfolding step by (simp add: ihb bu split: option.splits)
  qed
  have r: "memberKeysOk (fst (updateDevices env uid rm ts idx (d # ds) g))"
    "memberOptions (fst (updateDevices env uid rm ts idx (d # ds) g)) = memberOptions g"
    "joinedData (fst (updateDevices env uid rm ts idx (d # ds) g)) = joinedData g"
    "gc_state (fst (updateDevices env uid rm ts idx (d # ds) g)) = gc_state g"
    unfolding step using ihr by (simp_all add: ex)
  from d m b r show ?case by blast
qed

lemma removeMemberDevice_facts:
  "delivered (snd (removeMemberDevice uid did g)) = []"
  "bufferedDeviceMessages (fst (removeMemberDevice uid did g)) = bufferedDeviceMessages g"
  "memberOptions (fst (removeMemberDevice uid did g)) = memberOptions g"
  "map_of (members (fst (removeMemberDevice uid did g))) k =
     (if k = getMemberKey uid did then None else map_of (members g) k)"
  by (auto simp: removeMemberDevice_def Let_def map_of_map_delete split: option.splits)

lemma removeMemberDevices_facts:
  "delivered (snd (removeMemberDevices uid dids g)) = []
   \<and> bufferedDeviceMessages (fst (removeMemberDevices uid dids g)) = bufferedDeviceMessages g
   \<and> memberOptions (fst (removeMemberDevices uid dids g)) = memberOptions g
   \<and> (\<forall>k. map_of (members (fst (removeMemberDevices uid dids g))) k =
          (if fst k = uid \<and> snd k \<in> set dids then None else map_of (members g) k))"
proof (induction dids arbitrary: g)
  case Nil
  then show ?case by simp
next
  case (Cons d ds)
  from Cons [of "fst (removeMemberDevice uid d g)"] show ?case
    by (auto simp: split_beta removeMemberDevice_facts getMemberKey_def)
qed

lemma updateMembership_exact:
  assumes "memberKeysOk g" and "rm_userId rm = uid" and "uid \<noteq> ownUserId (memberOptions g)"
    and "distinct (map device_id devs)"
  shows "delivered (snd (updateMembership env uid rm devs ts g)) =
           concat (map (\<lambda>dev. delivered (snd (flushedMember env uid rm dev g))) devs)"
    and "dev \<in> set devs \<Longrightarrow>
         map_of (members (fst (updateMembership env uid rm devs ts g))) (getMemberKey uid (device_id dev)) =
           Some (fst (flushedMember env uid rm dev g))"
    and "buffered (fst (updateMembership env uid rm devs ts g)) k =
           (case find (\<lambda>dev. getMemberKey uid (device_id dev) = k) devs of
              None \<Rightarrow> buffered g k
            | Some dev \<Rightarrow> filter (\<lambda>x. sender_session_id x \<noteq> session_id dev) (buffered g k))"
proof -
  let ?g1 = "fst (updateDevices env uid rm ts 0 devs g)"
  let ?dids = "filter (\<lambda>d. d \<notin> set (map device_id devs)) (getDeviceIdsForUserId g uid)"
  let ?g2 = "fst (removeMemberDevices uid ?dids ?g1)"
  note ud = updateDevices_exact [OF assms, of env ts 0]
  from ud have udd: "delivered (snd (updateDevices env uid rm ts 0 devs g)) =
           concat (map (\<lambda>dev. delivered (snd (flushedMember env uid rm dev g))) devs)"
    and udm: "\<And>k. map_of (members ?g1) k =
                (case find (\<lambda>dev. getMemberKey uid (device_id dev) = k) devs of
                   None \<Rightarrow> map_of (members g) k
                 | Some dev \<Rightarrow> Some (fst (flushedMember env uid rm dev g)))"
    and udb: "\<And>k. buffered ?g1 k =
                (case find (\<lambda>dev. getMemberKey uid (device_id dev) = k) devs of
                   None \<Rightarrow> buffered g k
                 | Some dev \<Rightarrow> filter (\<lambda>x. sender_session_id x \<noteq> session_id dev) (buffered g k))"
    and udo: "memberOptions ?g1 = memberOptions g"
    by blast+
  note rmv = removeMemberDevices_facts [of uid ?dids ?g1]
  from rmv have rd: "delivered (snd (removeMemberDevices uid ?dids ?g1)) = []"
    and rb: "bufferedDeviceMessages ?g2 = bufferedDeviceMessages ?g1"
    and ro: "memberOptions ?g2 = memberOptions ?g1"
    and rmm: "\<And>k. map_of (members ?g2) k =
          (if fst k = uid \<and> snd k \<in> set ?dids then None else map_of (members ?g1) k)"
    by blast+
  have own: "uid \<noteq> ownUserId (memberOptions ?g2)"
    unfolding ro udo by (rule assms(3))
  have g': "fst (updateMembership env uid rm devs ts g) = ?g2"
    and e': "snd (updateMembership env uid rm devs ts g) =
              snd (updateDevices env uid rm ts 0 devs g) @ snd (removeMemberDevices uid ?dids ?g1)"
    using own by (simp_all add: updateMembership_def Let_def split_beta)
  show "delivered (snd (updateMembership env uid rm devs ts g)) =
           concat (map (\<lambda>dev. delivered (snd (flushedMember env uid rm dev g))) devs)"
    by (simp only: e' delivered_append udd rd append_Nil2)
  have "buffered ?g2 k = buffered ?g1 k"
    by (simp only: buffered_def rb)
  then show "buffered (fst (updateMembership env uid rm devs ts g)) k =
           (case find (\<lambda>dev. getMemberKey uid (device_id dev) = k) devs of
              None \<Rightarrow> buffered g k
            | Some dev \<Rightarrow> filter (\<lambda>x. sender_session_id x \<noteq> session_id dev) (buffered g k))"
    by (simp only: g' udb)
  assume dev: "dev \<in> set devs"
  let ?k = "getMemberKey uid (device_id dev)"
  have nd: "\<not> (fst ?k = uid \<and> snd ?k \<in> set ?dids)"
    using dev by (auto simp: getMemberKey_def)
  from dev obtain x where x: "find (\<lambda>d. getMemberKey uid (device_id d) = ?k) devs = Some x"
    by (cases "find (\<lambda>d. getMemberKey uid (device_id d) = ?k) devs")
      (auto simp: find_None_iff)
  then have "x \<in> set devs" "device_id x = device_id dev"
    by (auto simp: find_Some_iff getMemberKey_def)
  with dev assms(4) have "x = dev"
    by (meson distinct_map inj_onD)
  with x have "map_of (members ?g1) ?k = Some (fst (flushedMember env uid rm dev g))"
    by (simp add: udm)
  with nd show "map_of (members (fst (updateMembership env uid rm devs ts g))) ?k =
           Some (fst (flushedMember env uid rm dev g))"
    by (simp only: g' rmm if_False)
qed

lemma find_distinct_key:
  assumes "dev \<in> set devs" and "distinct (map device_id devs)"
  shows "find (\<lambda>d. getMemberKey uid (device_id d) = getMemberKey uid (device_id dev)) devs = Some dev"
proof -
  from assms(1) obtain x where x: "find (\<lambda>d. getMemberKey uid (device_id d) = getMemberKey uid (device_id dev)) devs = Some x"
    by (cases "find (\<lambda>d. getMemberKey uid (device_id d) = getMemberKey uid (device_id dev)) devs")
      (auto simp: find_None_iff)
  then have "x \<in> set devs" "device_id x = device_id dev"
    by (auto simp: find_Some_iff getMemberKey_def)
  with assms have "x = dev"
    by (meson distinct_map inj_onD)
  with x show ?thesis by simp
qed

lemma GroupCall_handleDeviceMessage_deliver_exact:
  assumes "map_of (members g) (getMemberKey uid did) = Some m"
    and "sender_session_id message = memberSessionId m"
  shows "GroupCall_handleDeviceMessage message uid did g =
           (g\<lparr>members := map_set (getMemberKey uid did) (fst (handleDeviceMessage message did m))
                            (members g)\<rparr>,
            MemberHandleDeviceMessage (getMemberKey uid did) message
            # map (ByMember (getMemberKey uid did)) (snd (handleDeviceMessage message did m)))"
  using assms by (simp add: GroupCall_handleDeviceMessage_def Let_def split_beta)

section \<open>The example call\<close>

lemma exWithMember_eq:
  "exWithMember =
     (exCall Ring)\<lparr>members :=
        [(getMemberKey (utf16 ''@b'') (utf16 ''D1''),
          newMember exRemote (exDevice ''D1'' ''S1'') (exOptions\<lparr>confId := utf16 ''conf''\<rparr>))]\<rparr>"
  by (simp add: exWithMember_def updateMembership_def updateDeviceMembership_def addMember_def
      flushPendingIncomingDeviceMessages_def getDeviceIdsForUserId_def exCall_def newGroupCall_def
      exOptions_def exDevice_def exRemote_def getMemberKey_def userId_def deviceId_def newMember_def
      utf16_def Let_def)

lemma exJoining_eq:
  "exJoining =
     (exCall Ring)\<lparr>members :=
        [(getMemberKey (utf16 ''@b'') (utf16 ''D1''),
          (newMember exRemote (exDevice ''D1'' ''S1'') (exOptions\<lparr>confId := utf16 ''conf''\<rparr>))
            \<lparr>localMedia := Some (LocalMedia 101), peerCall := Some (utf16 ''c1'')\<rparr>)],
        joinedData := Some \<lparr>jd_localMedia = LocalMedia 1\<rparr>,
        gc_state := Joining, deviceIndex := Some 1, eventTimestamp := Some 1000\<rparr>"
  unfolding exJoining_def exWithMember_eq
  by (simp add: join_def createJoinPayload_def joinDevices_def connectToMember_def connect_def
      shouldInitiateCall_def exCall_def newGroupCall_def exEnv_def
      exOptions_def exDevice_def exRemote_def getMemberKey_def userId_def deviceId_def newMember_def
      utf16_def Let_def)

lemma exLimbo_eq:
  "exLimbo =
     (exCall Ring)\<lparr>members :=
        [(getMemberKey (utf16 ''@b'') (utf16 ''D1''),
          newMember exRemote (exDevice ''D1'' ''S1'') (exOptions\<lparr>confId := utf16 ''conf''\<rparr>))],
        joinedData := None,
        gc_state := Joined, deviceIndex := Some 0, eventTimestamp := Some 1500\<rparr>"
  unfolding exLimbo_def exJoiningAlone_def
  by (simp add: join_def createJoinPayload_def joinDevices_def ownDevice_def addMember_def
      flushPendingIncomingDeviceMessages_def leave_def leaveCallMemberContent_def GroupCall_disconnect_def
      updateMembership_def updateDeviceMembership_def getDeviceIdsForUserId_def
      memberKeyIsForUser_def getDeviceFromMemberKey_def
      exCall_def newGroupCall_def exEnv_def exOwn_def
      exOptions_def exDevice_def exRemote_def getMemberKey_def userId_def deviceId_def newMember_def
      utf16_def Let_def)


section \<open>Routing and buffering of to-device messages\<close>

text \<open>
  C3: when a member exists for the key \<open>(user_id, device_id)\<close> and the message's
  \<open>sender_session_id\<close> is that member's session id, \<open>GroupCall.handleDeviceMessage\<close>
  replaces the member by the result of \<open>Member.handleDeviceMessage\<close> on the message and
  does what that call does, and nothing else; the buffer is untouched. This is the only
  case in which the message is handed over. Otherwise the members are untouched, the only
  effect is the log entry, and the message is added to the buffer of the key, at the end
  when it is a new object. One pass of the loop body of \<open>updateMembership\<close> for a device
  that is not our own installs the member, then applies \<open>Member.handleDeviceMessage\<close> to
  it for each buffered message of the key whose \<open>sender_session_id\<close> is the session id
  of the membership, in the order they were buffered, and does nothing after that; the
  member stored under the key is the result, exactly the other messages stay in the
  buffer, and repeating the same membership update hands over nothing. The whole of
  \<open>updateMembership\<close> for another user, with distinct device ids, does this for every
  listed device: each listed device's member is the flushed one and its buffer keeps
  exactly the messages of other sessions.
\<close>

theorem C3_deliver_or_buffer_then_flush:
  "(map_of (members g) (getMemberKey uid did) = Some m
      \<and> sender_session_id message = memberSessionId m \<longrightarrow>
      GroupCall_handleDeviceMessage message uid did g =
        (g\<lparr>members := map_set (getMemberKey uid did) (fst (handleDeviceMessage message did m))
                         (members g)\<rparr>,
         MemberHandleDeviceMessage (getMemberKey uid did) message
         # map (ByMember (getMemberKey uid did)) (snd (handleDeviceMessage message did m))))
   \<and> delivered (snd (GroupCall_handleDeviceMessage message uid did g)) =
       (if sessionMatches g (getMemberKey uid did) message
        then [(getMemberKey uid did, message)] else [])
   \<and> (sessionMatches g (getMemberKey uid did) message \<longrightarrow>
        bufferedDeviceMessages (fst (GroupCall_handleDeviceMessage message uid did g)) =
          bufferedDeviceMessages g)
   \<and> (\<not> sessionMatches g (getMemberKey uid did) message \<longrightarrow>
        members (fst (GroupCall_handleDeviceMessage message uid did g)) = members g
        \<and> snd (GroupCall_handleDeviceMessage message uid did g) =
            [GLog ''call: buffering to_device message, member not found'']
        \<and> buffered (fst (GroupCall_handleDeviceMessage message uid did g)) (getMemberKey uid did) =
            set_add (buffered g (getMemberKey uid did)) message
        \<and> (ref message \<notin> ref ` set (buffered g (getMemberKey uid did)) \<longrightarrow>
             buffered (fst (GroupCall_handleDeviceMessage message uid did g)) (getMemberKey uid did) =
               buffered g (getMemberKey uid did) @ [message]))
   \<and> (memberKeysOk h \<and> rm_userId rm = u
        \<and> \<not> (u = ownUserId (memberOptions h) \<and> device_id dev = ownDeviceId (memberOptions h)) \<longrightarrow>
        snd (updateDeviceMembership env u rm ts idx dev h) =
          installEffects env u rm dev h @ snd (flushedMember env u rm dev h)
        \<and> map_of (members (fst (updateDeviceMembership env u rm ts idx dev h)))
             (getMemberKey u (device_id dev)) = Some (fst (flushedMember env u rm dev h))
        \<and> delivered (snd (updateDeviceMembership env u rm ts idx dev h)) =
            map (Pair (getMemberKey u (device_id dev)))
              (filter (\<lambda>x. sender_session_id x = session_id dev)
                 (buffered h (getMemberKey u (device_id dev))))
        \<and> buffered (fst (updateDeviceMembership env u rm ts idx dev h)) (getMemberKey u (device_id dev)) =
            filter (\<lambda>x. sender_session_id x \<noteq> session_id dev)
              (buffered h (getMemberKey u (device_id dev)))
        \<and> delivered (snd (updateDeviceMembership env u rm ts' idx' dev
                             (fst (updateDeviceMembership env u rm ts idx dev h)))) = [])
   \<and> (memberKeysOk h \<and> rm_userId rm = u \<and> u \<noteq> ownUserId (memberOptions h)
        \<and> distinct (map device_id devs) \<longrightarrow>
        delivered (snd (updateMembership env u rm devs ts h)) =
          concat (map (\<lambda>d. map (Pair (getMemberKey u (device_id d)))
                              (filter (\<lambda>x. sender_session_id x = session_id d)
                                 (buffered h (getMemberKey u (device_id d))))) devs)
        \<and> (\<forall>d \<in> set devs.
              map_of (members (fst (updateMembership env u rm devs ts h))) (getMemberKey u (device_id d)) =
                Some (fst (flushedMember env u rm d h))
              \<and> buffered (fst (updateMembership env u rm devs ts h)) (getMemberKey u (device_id d)) =
                  filter (\<lambda>x. sender_session_id x \<noteq> session_id d)
                    (buffered h (getMemberKey u (device_id d)))))"
proof (intro conjI impI ballI)
  assume "map_of (members g) (getMemberKey uid did) = Some m
      \<and> sender_session_id message = memberSessionId m"
  then show "GroupCall_handleDeviceMessage message uid did g =
        (g\<lparr>members := map_set (getMemberKey uid did) (fst (handleDeviceMessage message did m))
                         (members g)\<rparr>,
         MemberHandleDeviceMessage (getMemberKey uid did) message
         # map (ByMember (getMemberKey uid did)) (snd (handleDeviceMessage message did m)))"
    by (intro GroupCall_handleDeviceMessage_deliver_exact) simp_all
next
  show "delivered (snd (GroupCall_handleDeviceMessage message uid did g)) =
     (if sessionMatches g (getMemberKey uid did) message
      then [(getMemberKey uid did, message)] else [])"
    by (simp add: GroupCall_handleDeviceMessage_deliver GroupCall_handleDeviceMessage_buffer)
next
  assume "sessionMatches g (getMemberKey uid did) message"
  then show "bufferedDeviceMessages (fst (GroupCall_handleDeviceMessage message uid did g)) =
          bufferedDeviceMessages g"
    by (rule GroupCall_handleDeviceMessage_deliver)
next
  assume no: "\<not> sessionMatches g (getMemberKey uid did) message"
  from GroupCall_handleDeviceMessage_buffer [OF no]
  show "members (fst (GroupCall_handleDeviceMessage message uid did g)) = members g"
    by simp
  from GroupCall_handleDeviceMessage_buffer [OF no]
  show "snd (GroupCall_handleDeviceMessage message uid did g) =
            [GLog ''call: buffering to_device message, member not found'']"
    by simp
  from GroupCall_handleDeviceMessage_buffer [OF no]
  show b: "buffered (fst (GroupCall_handleDeviceMessage message uid did g)) (getMemberKey uid did) =
            set_add (buffered g (getMemberKey uid did)) message"
    by (simp add: buffered_def)
  assume "ref message \<notin> ref ` set (buffered g (getMemberKey uid did))"
  with b show "buffered (fst (GroupCall_handleDeviceMessage message uid did g)) (getMemberKey uid did) =
               buffered g (getMemberKey uid did) @ [message]"
    by (simp add: set_add_fresh)
next
  assume h: "memberKeysOk h \<and> rm_userId rm = u
        \<and> \<not> (u = ownUserId (memberOptions h) \<and> device_id dev = ownDeviceId (memberOptions h))"
  then have ok: "memberKeysOk h" and rm: "rm_userId rm = u"
    and notown: "\<not> (u = ownUserId (memberOptions h) \<and> device_id dev = ownDeviceId (memberOptions h))"
    by simp_all
  show "snd (updateDeviceMembership env u rm ts idx dev h) =
          installEffects env u rm dev h @ snd (flushedMember env u rm dev h)"
    by (rule updateDeviceMembership_exact [OF ok notown rm])
  show "map_of (members (fst (updateDeviceMembership env u rm ts idx dev h)))
             (getMemberKey u (device_id dev)) = Some (fst (flushedMember env u rm dev h))"
    by (simp add: updateDeviceMembership_exact [OF ok notown rm])
  show "delivered (snd (updateDeviceMembership env u rm ts idx dev h)) =
          map (Pair (getMemberKey u (device_id dev)))
            (filter (\<lambda>x. sender_session_id x = session_id dev)
               (buffered h (getMemberKey u (device_id dev))))"
    by (rule updateDeviceMembership_delivered [OF ok notown rm])
  show "buffered (fst (updateDeviceMembership env u rm ts idx dev h)) (getMemberKey u (device_id dev)) =
            filter (\<lambda>x. sender_session_id x \<noteq> session_id dev)
              (buffered h (getMemberKey u (device_id dev)))"
    by (simp add: updateDeviceMembership_buffered [OF ok notown rm])
  let ?h' = "fst (updateDeviceMembership env u rm ts idx dev h)"
  have ok': "memberKeysOk ?h'"
    by (rule updateDeviceMembership_memberKeysOk [OF ok rm])
  have notown': "\<not> (u = ownUserId (memberOptions ?h') \<and> device_id dev = ownDeviceId (memberOptions ?h'))"
    using notown by simp
  show "delivered (snd (updateDeviceMembership env u rm ts' idx' dev ?h')) = []"
    by (simp add: updateDeviceMembership_delivered [OF ok' notown' rm]
        updateDeviceMembership_buffered [OF ok notown rm])
next
  assume h: "memberKeysOk h \<and> rm_userId rm = u \<and> u \<noteq> ownUserId (memberOptions h)
        \<and> distinct (map device_id devs)"
  then have ok: "memberKeysOk h" and rm: "rm_userId rm = u"
    and remote: "u \<noteq> ownUserId (memberOptions h)" and dist: "distinct (map device_id devs)"
    by simp_all
  note um = updateMembership_exact [OF ok rm remote dist, where env = env and ts = ts]
  show "delivered (snd (updateMembership env u rm devs ts h)) =
          concat (map (\<lambda>d. map (Pair (getMemberKey u (device_id d)))
                              (filter (\<lambda>x. sender_session_id x = session_id d)
                                 (buffered h (getMemberKey u (device_id d))))) devs)"
    by (simp add: um(1) flushedMember_delivered)
  fix d assume d: "d \<in> set devs"
  show "map_of (members (fst (updateMembership env u rm devs ts h))) (getMemberKey u (device_id d)) =
                Some (fst (flushedMember env u rm d h))"
    by (rule um(2) [OF d])
  show "buffered (fst (updateMembership env u rm devs ts h)) (getMemberKey u (device_id d)) =
                  filter (\<lambda>x. sender_session_id x \<noteq> session_id d)
                    (buffered h (getMemberKey u (device_id d)))"
    by (simp add: um(3) find_distinct_key [OF d dist])
qed


theorem C3_deliver_or_buffer_then_flush_witness:
  "snd (GroupCall_handleDeviceMessage (exMessage 7 Invite ''c5'' ''S7'' ''S0'')
       (utf16 ''@b'') (utf16 ''D1'') (exCall Ring)) =
     [GLog ''call: buffering to_device message, member not found'']
   \<and> buffered (fst (GroupCall_handleDeviceMessage (exMessage 7 Invite ''c5'' ''S7'' ''S0'')
       (utf16 ''@b'') (utf16 ''D1'') (exCall Ring))) (getMemberKey (utf16 ''@b'') (utf16 ''D1''))
      = [exMessage 7 Invite ''c5'' ''S7'' ''S0'']
   \<and> snd (updateDeviceMembership (exEnv None) (utf16 ''@b'') exRemote 1000 0 (exDevice ''D1'' ''S7'')
         (fst (GroupCall_handleDeviceMessage (exMessage 7 Invite ''c5'' ''S7'' ''S0'')
            (utf16 ''@b'') (utf16 ''D1'') (exCall Ring))))
      = [GLog ''add'',
         MemberHandleDeviceMessage (getMemberKey (utf16 ''@b'') (utf16 ''D1''))
           (exMessage 7 Invite ''c5'' ''S7'' ''S0''),
         ByMember (getMemberKey (utf16 ''@b'') (utf16 ''D1'')) SyncLogRefDetached,
         ByMember (getMemberKey (utf16 ''@b'') (utf16 ''D1'')) (PeerCallNew (utf16 ''c5'')),
         ByMember (getMemberKey (utf16 ''@b'') (utf16 ''D1''))
           (PeerCallHandleIncoming (utf16 ''c5'') (exMessage 7 Invite ''c5'' ''S7'' ''S0'')
              (utf16 ''D1''))]
   \<and> map_of (members (fst (updateMembership (exEnv None) (utf16 ''@b'') exRemote
         [exDevice ''D1'' ''S7''] 1000
         (fst (GroupCall_handleDeviceMessage (exMessage 7 Invite ''c5'' ''S7'' ''S0'')
            (utf16 ''@b'') (utf16 ''D1'') (exCall Ring))))))
       (getMemberKey (utf16 ''@b'') (utf16 ''D1''))
      = Some ((newMember exRemote (exDevice ''D1'' ''S7'') exOptions)
                \<lparr>peerCall := Some (utf16 ''c5'')\<rparr>)
   \<and> buffered (fst (updateMembership (exEnv None) (utf16 ''@b'') exRemote
         [exDevice ''D1'' ''S7''] 1000
         (fst (GroupCall_handleDeviceMessage (exMessage 7 Invite ''c5'' ''S7'' ''S0'')
            (utf16 ''@b'') (utf16 ''D1'') (exCall Ring)))))
       (getMemberKey (utf16 ''@b'') (utf16 ''D1'')) = []
   \<and> GroupCall_handleDeviceMessage (exMessage 8 Invite ''c6'' ''S1'' ''S0'')
       (utf16 ''@b'') (utf16 ''D1'') exWithMember =
     (exWithMember\<lparr>members :=
        [(getMemberKey (utf16 ''@b'') (utf16 ''D1''),
          (newMember exRemote (exDevice ''D1'' ''S1'') exOptions)
            \<lparr>peerCall := Some (utf16 ''c6'')\<rparr>)]\<rparr>,
      [MemberHandleDeviceMessage (getMemberKey (utf16 ''@b'') (utf16 ''D1''))
         (exMessage 8 Invite ''c6'' ''S1'' ''S0''),
       ByMember (getMemberKey (utf16 ''@b'') (utf16 ''D1'')) SyncLogRefDetached,
       ByMember (getMemberKey (utf16 ''@b'') (utf16 ''D1'')) (PeerCallNew (utf16 ''c6'')),
       ByMember (getMemberKey (utf16 ''@b'') (utf16 ''D1''))
         (PeerCallHandleIncoming (utf16 ''c6'') (exMessage 8 Invite ''c6'' ''S1'' ''S0'')
            (utf16 ''D1''))])"
proof -
  let ?msg = "exMessage 7 Invite ''c5'' ''S7'' ''S0''"
  let ?other = "exMessage 8 Invite ''c6'' ''S1'' ''S0''"
  let ?g = "exCall Ring"
  let ?h = "fst (GroupCall_handleDeviceMessage ?msg (utf16 ''@b'') (utf16 ''D1'') ?g)"
  let ?k = "getMemberKey (utf16 ''@b'') (utf16 ''D1'')"
  let ?dev = "exDevice ''D1'' ''S7''"
  let ?old = "newMember exRemote (exDevice ''D1'' ''S1'') exOptions"
  have no: "\<not> sessionMatches ?g ?k ?msg"
    by (simp add: sessionMatches_def exCall_def newGroupCall_def)
  have empty: "buffered ?g ?k = []"
    by (simp add: buffered_def exCall_def newGroupCall_def)
  have fresh: "ref ?msg \<notin> ref ` set (buffered ?g ?k)"
    by (simp add: empty)
  have ms: "members ?g = []" by (simp add: exCall_def newGroupCall_def)
  have dev: "getMemberKey (utf16 ''@b'') (device_id ?dev) = ?k"
    by (simp add: exDevice_def)
  have rm: "rm_userId exRemote = utf16 ''@b''" by (simp add: exRemote_def)
  have dist: "distinct (map device_id [?dev])" by simp
  have indev: "?dev \<in> set [?dev]" by simp
  note buf = C3_deliver_or_buffer_then_flush [where message = ?msg and uid = "utf16 ''@b''"
      and did = "utf16 ''D1''" and g = ?g and h = ?h and rm = exRemote and u = "utf16 ''@b''"
      and dev = ?dev and env = "exEnv None" and ts = 1000 and idx = 0 and devs = "[?dev]"]
  from buf no have e0: "snd (GroupCall_handleDeviceMessage ?msg (utf16 ''@b'') (utf16 ''D1'') ?g) =
      [GLog ''call: buffering to_device message, member not found'']"
    by blast
  from buf no fresh have "buffered ?h ?k = buffered ?g ?k @ [?msg]"
    by blast
  then have b1: "buffered ?h ?k = [?msg]"
    by (simp only: empty append_Nil)
  from buf no have hm: "members ?h = members ?g"
    by blast
  have hmem: "members ?h = []"
    by (simp only: hm ms)
  have ok: "memberKeysOk ?h"
    by (simp add: memberKeysOk_def hmem)
  have hfields: "memberOptions ?h = exOptions" "joinedData ?h = None"
    by (subst GroupCall_handleDeviceMessage_buffer [OF no],
        simp add: exCall_def newGroupCall_def exOptions_def)+
  have notown: "\<not> (utf16 ''@b'' = ownUserId (memberOptions ?h)
                   \<and> device_id ?dev = ownDeviceId (memberOptions ?h))"
    unfolding hfields by (simp add: exOptions_def utf16_def)
  have remote: "utf16 ''@b'' \<noteq> ownUserId (memberOptions ?h)"
    unfolding hfields by (simp add: exOptions_def utf16_def)
  have cij: "connectIfJoined (exEnv None) ?h x = (x, [])" for x
    by (simp only: connectIfJoined_def hfields option.case)
  have fm: "flushedMember (exEnv None) (utf16 ''@b'') exRemote ?dev ?h =
      ((newMember exRemote ?dev exOptions)\<lparr>peerCall := Some (utf16 ''c5'')\<rparr>,
       [MemberHandleDeviceMessage ?k ?msg, ByMember ?k SyncLogRefDetached,
        ByMember ?k (PeerCallNew (utf16 ''c5'')),
        ByMember ?k (PeerCallHandleIncoming (utf16 ''c5'') ?msg (utf16 ''D1''))])"
    unfolding flushedMember_def memberBeforeFlush_def dev b1 hmem hfields cij
    by (simp add: handleDeviceMessage_def newMember_def exMessage_def
        exDevice_def exOptions_def deviceId_def Let_def)
  have ie: "installEffects (exEnv None) (utf16 ''@b'') exRemote ?dev ?h = [GLog ''add'']"
    unfolding installEffects_def dev hmem hfields cij
    by simp
  from buf ok rm notown
  have "snd (updateDeviceMembership (exEnv None) (utf16 ''@b'') exRemote 1000 0 ?dev ?h) =
          installEffects (exEnv None) (utf16 ''@b'') exRemote ?dev ?h
          @ snd (flushedMember (exEnv None) (utf16 ''@b'') exRemote ?dev ?h)"
    by blast
  then have e1: "snd (updateDeviceMembership (exEnv None) (utf16 ''@b'') exRemote 1000 0 ?dev ?h) =
      [GLog ''add'', MemberHandleDeviceMessage ?k ?msg, ByMember ?k SyncLogRefDetached,
        ByMember ?k (PeerCallNew (utf16 ''c5'')),
        ByMember ?k (PeerCallHandleIncoming (utf16 ''c5'') ?msg (utf16 ''D1''))]"
    by (simp only: ie fm snd_conv append_Cons append_Nil)
  from buf ok rm remote dist
  have all: "\<forall>d \<in> set [?dev].
      map_of (members (fst (updateMembership (exEnv None) (utf16 ''@b'') exRemote [?dev] 1000 ?h)))
        (getMemberKey (utf16 ''@b'') (device_id d)) =
        Some (fst (flushedMember (exEnv None) (utf16 ''@b'') exRemote d ?h))
      \<and> buffered (fst (updateMembership (exEnv None) (utf16 ''@b'') exRemote [?dev] 1000 ?h))
          (getMemberKey (utf16 ''@b'') (device_id d)) =
          filter (\<lambda>x. sender_session_id x \<noteq> session_id d)
            (buffered ?h (getMemberKey (utf16 ''@b'') (device_id d)))"
    by blast
  from bspec [OF all indev]
  have m2: "map_of (members (fst (updateMembership (exEnv None) (utf16 ''@b'') exRemote [?dev] 1000 ?h))) ?k =
        Some ((newMember exRemote ?dev exOptions)\<lparr>peerCall := Some (utf16 ''c5'')\<rparr>)"
    and "buffered (fst (updateMembership (exEnv None) (utf16 ''@b'') exRemote [?dev] 1000 ?h)) ?k =
          filter (\<lambda>x. sender_session_id x \<noteq> session_id ?dev) [?msg]"
    by (simp_all only: dev fm fst_conv b1)
  then have b2: "buffered (fst (updateMembership (exEnv None) (utf16 ''@b'') exRemote [?dev] 1000 ?h)) ?k = []"
    by (simp add: exMessage_def exDevice_def)
  have lookup: "map_of (members exWithMember) ?k = Some ?old"
    by (simp add: exWithMember_eq exOptions_def)
  have sess: "sender_session_id ?other = memberSessionId ?old"
    by (simp add: exMessage_def memberSessionId_def newMember_def exDevice_def)
  have hd: "handleDeviceMessage ?other (utf16 ''D1'') ?old =
      (?old\<lparr>peerCall := Some (utf16 ''c6'')\<rparr>,
       [SyncLogRefDetached, PeerCallNew (utf16 ''c6''),
        PeerCallHandleIncoming (utf16 ''c6'') ?other (utf16 ''D1'')])"
    by (simp add: handleDeviceMessage_def newMember_def exMessage_def exOptions_def)
  have mset: "map_set ?k v (members exWithMember) = [(?k, v)]" for v
    by (simp add: exWithMember_eq getMemberKey_def)
  note del = C3_deliver_or_buffer_then_flush [where message = ?other and uid = "utf16 ''@b''"
      and did = "utf16 ''D1''" and g = exWithMember and m = ?old]
  from del lookup sess
  have "GroupCall_handleDeviceMessage ?other (utf16 ''@b'') (utf16 ''D1'') exWithMember =
        (exWithMember\<lparr>members := map_set ?k (fst (handleDeviceMessage ?other (utf16 ''D1'') ?old))
                         (members exWithMember)\<rparr>,
         MemberHandleDeviceMessage ?k ?other
         # map (ByMember ?k) (snd (handleDeviceMessage ?other (utf16 ''D1'') ?old)))"
    by blast
  then have d3: "GroupCall_handleDeviceMessage ?other (utf16 ''@b'') (utf16 ''D1'') exWithMember =
     (exWithMember\<lparr>members := [(?k, ?old\<lparr>peerCall := Some (utf16 ''c6'')\<rparr>)]\<rparr>,
      [MemberHandleDeviceMessage ?k ?other, ByMember ?k SyncLogRefDetached,
       ByMember ?k (PeerCallNew (utf16 ''c6'')),
       ByMember ?k (PeerCallHandleIncoming (utf16 ''c6'') ?other (utf16 ''D1''))])"
    by (simp only: hd mset fst_conv snd_conv list.map)
  from e0 b1 e1 m2 b2 d3 show ?thesis
    by (intro conjI)
qed

lemma set_add_prefix: "take (length ms) (set_add ms message) = ms"
  by (simp add: set_add_def)

lemma GroupCall_handleDeviceMessage_buffered:
  "buffered (fst (GroupCall_handleDeviceMessage message uid did g)) key =
     (if \<not> sessionMatches g (getMemberKey uid did) message \<and> key = getMemberKey uid did
      then set_add (buffered g key) message else buffered g key)"
proof (cases "sessionMatches g (getMemberKey uid did) message")
  case True
  from GroupCall_handleDeviceMessage_deliver(2) [OF True] True show ?thesis
    by (simp add: buffered_def)
next
  case False
  from GroupCall_handleDeviceMessage_buffer [OF False] False show ?thesis
    by (simp add: buffered_def)
qed

section \<open>The buffer has no bound\<close>

text \<open>
  C4 (as the specification states it, refuted): 65 messages, each a new object, from a
  device that is not a member leave 65 entries in the buffer of its key, more than the cap
  of 64.
\<close>

theorem C4_counterexample:
  "\<not> length (buffered (flood 65 (exCall Ring)) (getMemberKey (utf16 ''@b'') (utf16 ''D1''))) \<le> 64"
proof -
  have "members (exCall Ring) = []" "bufferedDeviceMessages (exCall Ring) = Map.empty"
    by (simp_all add: exCall_def newGroupCall_def)
  from flood_buffered [OF this, of 65] show ?thesis by simp
qed

text \<open>
  C4 (amended): the buffer of a key has no cap. \<open>GroupCall.handleDeviceMessage\<close> never
  removes a buffered entry: for every key the buffer before the call is a prefix of the
  buffer after it. A message it does not deliver is added to the buffer of its key, the
  other buffers staying as they are, whatever the buffer's length: appended at the end
  when the message object is not yet in that buffer, which then is one longer, and
  changing nothing when it is (the buffer is a set); the only thing logged is that the
  message is buffered. For every \<open>n\<close>, \<open>n\<close> messages, each a new object, from a device that
  is no member of a call without members leave \<open>n\<close> entries in the buffer of its key.
\<close>

theorem C4_buffer_grows_without_bound:
  "take (length (buffered g key))
     (buffered (fst (GroupCall_handleDeviceMessage message uid did g)) key) = buffered g key
   \<and> length (buffered g key) \<le>
       length (buffered (fst (GroupCall_handleDeviceMessage message uid did g)) key)
   \<and> (\<not> sessionMatches g (getMemberKey uid did) message \<longrightarrow>
        buffered (fst (GroupCall_handleDeviceMessage message uid did g)) key =
          (if key = getMemberKey uid did then set_add (buffered g key) message else buffered g key)
        \<and> snd (GroupCall_handleDeviceMessage message uid did g) =
            [GLog ''call: buffering to_device message, member not found'']
        \<and> (ref message \<notin> ref ` set (buffered g (getMemberKey uid did)) \<longrightarrow>
             buffered (fst (GroupCall_handleDeviceMessage message uid did g)) (getMemberKey uid did) =
               buffered g (getMemberKey uid did) @ [message]
             \<and> length (buffered (fst (GroupCall_handleDeviceMessage message uid did g))
                         (getMemberKey uid did)) =
                 Suc (length (buffered g (getMemberKey uid did)))))
   \<and> (members g = [] \<and> bufferedDeviceMessages g = Map.empty \<longrightarrow>
        length (buffered (flood n g) (getMemberKey (utf16 ''@b'') (utf16 ''D1''))) = n)"
proof (intro conjI impI)
  show "take (length (buffered g key))
     (buffered (fst (GroupCall_handleDeviceMessage message uid did g)) key) = buffered g key"
    by (simp add: GroupCall_handleDeviceMessage_buffered set_add_prefix)
  show "length (buffered g key) \<le>
       length (buffered (fst (GroupCall_handleDeviceMessage message uid did g)) key)"
    by (simp add: GroupCall_handleDeviceMessage_buffered set_add_def)
next
  assume no: "\<not> sessionMatches g (getMemberKey uid did) message"
  then show "buffered (fst (GroupCall_handleDeviceMessage message uid did g)) key =
          (if key = getMemberKey uid did then set_add (buffered g key) message else buffered g key)"
    by (simp add: GroupCall_handleDeviceMessage_buffered)
  from GroupCall_handleDeviceMessage_buffer [OF no]
  show "snd (GroupCall_handleDeviceMessage message uid did g) =
            [GLog ''call: buffering to_device message, member not found'']"
    by simp
  assume fresh: "ref message \<notin> ref ` set (buffered g (getMemberKey uid did))"
  with no show a: "buffered (fst (GroupCall_handleDeviceMessage message uid did g)) (getMemberKey uid did) =
               buffered g (getMemberKey uid did) @ [message]"
    by (simp add: GroupCall_handleDeviceMessage_buffered set_add_fresh)
  show "length (buffered (fst (GroupCall_handleDeviceMessage message uid did g))
                         (getMemberKey uid did)) =
                 Suc (length (buffered g (getMemberKey uid did)))"
    by (simp add: a)
next
  assume "members g = [] \<and> bufferedDeviceMessages g = Map.empty"
  then have "members g = []" "bufferedDeviceMessages g = Map.empty" by simp_all
  from flood_buffered [OF this, of n]
  show "length (buffered (flood n g) (getMemberKey (utf16 ''@b'') (utf16 ''D1''))) = n"
    by simp
qed

theorem C4_buffer_grows_without_bound_witness:
  "buffered (flood 65 (exCall Ring)) (getMemberKey (utf16 ''@b'') (utf16 ''D1'')) =
     buffered (flood 64 (exCall Ring)) (getMemberKey (utf16 ''@b'') (utf16 ''D1''))
     @ [exMessage 64 Candidates ''c5'' ''S7'' ''S0'']
   \<and> snd (GroupCall_handleDeviceMessage (exMessage 64 Candidates ''c5'' ''S7'' ''S0'')
            (utf16 ''@b'') (utf16 ''D1'') (flood 64 (exCall Ring))) =
       [GLog ''call: buffering to_device message, member not found'']
   \<and> length (buffered (flood 64 (exCall Ring)) (getMemberKey (utf16 ''@b'') (utf16 ''D1''))) = 64
   \<and> length (buffered (flood 65 (exCall Ring)) (getMemberKey (utf16 ''@b'') (utf16 ''D1''))) = 65"
proof -
  let ?k = "getMemberKey (utf16 ''@b'') (utf16 ''D1'')"
  let ?msg = "exMessage 64 Candidates ''c5'' ''S7'' ''S0''"
  let ?g = "flood 64 (exCall Ring)"
  have init: "members (exCall Ring) = []" "bufferedDeviceMessages (exCall Ring) = Map.empty"
    by (simp_all add: exCall_def newGroupCall_def)
  note f = flood_buffered [OF init, of 64]
  from f have no: "\<not> sessionMatches ?g ?k ?msg"
    by (simp add: sessionMatches_def)
  from f have fresh: "ref ?msg \<notin> ref ` set (buffered ?g ?k)"
    by (auto simp: exMessage_def)
  have step: "flood 65 (exCall Ring) =
      fst (GroupCall_handleDeviceMessage ?msg (utf16 ''@b'') (utf16 ''D1'') ?g)"
    by (simp add: eval_nat_numeral)
  note t = C4_buffer_grows_without_bound [where g = ?g and message = ?msg
      and uid = "utf16 ''@b''" and did = "utf16 ''D1''" and key = ?k]
  from t no fresh have a: "buffered (flood 65 (exCall Ring)) ?k = buffered ?g ?k @ [?msg]"
    unfolding step by blast
  from t no have b: "snd (GroupCall_handleDeviceMessage ?msg (utf16 ''@b'') (utf16 ''D1'') ?g) =
       [GLog ''call: buffering to_device message, member not found'']"
    by blast
  from C4_buffer_grows_without_bound [where g = "exCall Ring" and n = 64] init
  have c: "length (buffered ?g ?k) = 64" by blast
  from C4_buffer_grows_without_bound [where g = "exCall Ring" and n = 65] init
  have d: "length (buffered (flood 65 (exCall Ring)) ?k) = 65" by blast
  from a b c d show ?thesis by (intro conjI)
qed

section \<open>Session change of a member\<close>

text \<open>
  C5: when \<open>updateMembership\<close> meets a device (not our own) whose member exists with
  another session id, it first disconnects the old member (without hangup) and removes it
  from the map, then creates a member for the new membership and adds it under the key:
  the effects start with the old member's disconnect, the key then maps to the new member
  only, whose session id is the new one and whose retry count is 0. The new member is
  connected if and only if \<open>joinedData\<close> is set. Where \<open>joinedData\<close> is set exactly when
  the call has joined, that is if and only if the call has joined. It is not so in
  general: in state \<open>Joined\<close> with \<open>joinedData\<close> unset, the state \<open>exLimbo\<close> that leaving
  while \<open>Joining\<close> followed by the return of the own membership produces, the call has
  joined and the new member is created but not connected.
\<close>

theorem C5_session_change_replaces_member:
  assumes old: "map_of (members g) (getMemberKey uid (device_id dev)) = Some old"
    and changed: "memberSessionId old \<noteq> session_id dev"
    and notown: "\<not> (uid = ownUserId (memberOptions g) \<and> device_id dev = ownDeviceId (memberOptions g))"
  shows "members (fst (updateDeviceMembership env uid rm ts idx dev g)) =
           map_delete (getMemberKey uid (device_id dev)) (members g)
           @ [(getMemberKey uid (device_id dev), replacementMember env rm dev g)]
         \<and> map_of (map_delete (getMemberKey uid (device_id dev)) (members g))
              (getMemberKey uid (device_id dev)) = None
         \<and> retryCount (replacementMember env rm dev g) = 0
         \<and> memberSessionId (replacementMember env rm dev g) = session_id dev
         \<and> snd (updateDeviceMembership env uid rm ts idx dev g) =
             GLog ''removedSessionId''
             # map (ByMember (getMemberKey uid (device_id dev))) (snd (disconnect False old))
             @ GLog ''add''
             # snd (connectIfJoined env g (newMember rm dev (memberOptions g)))
             @ snd (snd (flushPendingIncomingDeviceMessages
                      (fst (connectIfJoined env g (newMember rm dev (memberOptions g)))) g))
         \<and> (ByMember (getMemberKey (rm_userId rm) (device_id dev)) (LogWrap ''connect'')
               \<in> set (snd (updateDeviceMembership env uid rm ts idx dev g))
             \<longleftrightarrow> joinedData g \<noteq> None)
         \<and> ((hasJoined g \<longleftrightarrow> joinedData g \<noteq> None) \<longrightarrow>
              (ByMember (getMemberKey (rm_userId rm) (device_id dev)) (LogWrap ''connect'')
                 \<in> set (snd (updateDeviceMembership env uid rm ts idx dev g))
               \<longleftrightarrow> hasJoined g))
         \<and> (gc_state g = Joined \<and> joinedData g = None \<longrightarrow>
              hasJoined g
              \<and> ByMember (getMemberKey (rm_userId rm) (device_id dev)) (LogWrap ''connect'')
                   \<notin> set (snd (updateDeviceMembership env uid rm ts idx dev g))
              \<and> snd (connectIfJoined env g (newMember rm dev (memberOptions g))) = []
              \<and> fst (connectIfJoined env g (newMember rm dev (memberOptions g))) =
                  newMember rm dev (memberOptions g))"
proof -
  note eq = updateDeviceMembership_session_changed [OF old changed notown, of env rm ts idx]
  have logs: "ByMember (getMemberKey (rm_userId rm) (device_id dev)) (LogWrap ''connect'')
               \<in> set (snd (connectIfJoined env g (newMember rm dev (memberOptions g))))
             \<longleftrightarrow> joinedData g \<noteq> None"
    using connectIfJoined_logs [of "newMember rm dev (memberOptions g)" env g] by simp
  have m: "members (fst (updateDeviceMembership env uid rm ts idx dev g)) =
           map_delete (getMemberKey uid (device_id dev)) (members g)
           @ [(getMemberKey uid (device_id dev), replacementMember env rm dev g)]"
    by (simp add: eq replacementMember_def)
  have e: "snd (updateDeviceMembership env uid rm ts idx dev g) =
             GLog ''removedSessionId''
             # map (ByMember (getMemberKey uid (device_id dev))) (snd (disconnect False old))
             @ GLog ''add''
             # snd (connectIfJoined env g (newMember rm dev (memberOptions g)))
             @ snd (snd (flushPendingIncomingDeviceMessages
                      (fst (connectIfJoined env g (newMember rm dev (memberOptions g)))) g))"
    by (simp add: eq)
  have l: "ByMember (getMemberKey (rm_userId rm) (device_id dev)) (LogWrap ''connect'')
               \<in> set (snd (updateDeviceMembership env uid rm ts idx dev g))
             \<longleftrightarrow> joinedData g \<noteq> None"
    unfolding e using logs
    by (auto simp: disconnect_no_connect flush_no_LogWrap)
  have r: "retryCount (replacementMember env rm dev g) = 0"
    "memberSessionId (replacementMember env rm dev g) = session_id dev"
    by (simp_all add: replacementMember_def)
  have d: "map_of (map_delete (getMemberKey uid (device_id dev)) (members g))
              (getMemberKey uid (device_id dev)) = None"
    by (simp add: map_of_map_delete)
  have i: "(hasJoined g \<longleftrightarrow> joinedData g \<noteq> None) \<longrightarrow>
              (ByMember (getMemberKey (rm_userId rm) (device_id dev)) (LogWrap ''connect'')
                 \<in> set (snd (updateDeviceMembership env uid rm ts idx dev g))
               \<longleftrightarrow> hasJoined g)"
    using l by blast
  have b: "gc_state g = Joined \<and> joinedData g = None \<longrightarrow>
              hasJoined g
              \<and> ByMember (getMemberKey (rm_userId rm) (device_id dev)) (LogWrap ''connect'')
                   \<notin> set (snd (updateDeviceMembership env uid rm ts idx dev g))
              \<and> snd (connectIfJoined env g (newMember rm dev (memberOptions g))) = []
              \<and> fst (connectIfJoined env g (newMember rm dev (memberOptions g))) =
                  newMember rm dev (memberOptions g)"
    using l by (simp add: hasJoined_def connectIfJoined_def)
  from m d r e l i b show ?thesis by (intro conjI)
qed

theorem C5_session_change_replaces_member_witness:
  "hasJoined exLimbo \<and> gc_state exLimbo = Joined \<and> joinedData exLimbo = None
   \<and> members (fst (updateDeviceMembership (exEnv None) (utf16 ''@b'') exRemote 2000 0
                   (exDevice ''D1'' ''S2'') exLimbo)) =
       [(getMemberKey (utf16 ''@b'') (utf16 ''D1''),
         newMember exRemote (exDevice ''D1'' ''S2'') exOptions)]
   \<and> snd (updateDeviceMembership (exEnv None) (utf16 ''@b'') exRemote 2000 0
                   (exDevice ''D1'' ''S2'') exLimbo) =
       [GLog ''removedSessionId'',
        ByMember (getMemberKey (utf16 ''@b'') (utf16 ''D1'')) (LogWrap ''disconnect''),
        GLog ''add'']
   \<and> ByMember (getMemberKey (utf16 ''@b'') (utf16 ''D1'')) (LogWrap ''connect'')
        \<notin> set (snd (updateDeviceMembership (exEnv None) (utf16 ''@b'') exRemote 2000 0
                        (exDevice ''D1'' ''S2'') exLimbo))
   \<and> hasJoined exJoining
   \<and> ByMember (getMemberKey (utf16 ''@b'') (utf16 ''D1'')) (LogWrap ''connect'')
        \<in> set (snd (updateDeviceMembership (exEnv None) (utf16 ''@b'') exRemote 2000 0
                        (exDevice ''D1'' ''S2'') exJoining))"
proof -
  let ?k = "getMemberKey (utf16 ''@b'') (utf16 ''D1'')"
  let ?dev = "exDevice ''D1'' ''S2''"
  let ?old = "(newMember exRemote (exDevice ''D1'' ''S1'') (exOptions\<lparr>confId := utf16 ''conf''\<rparr>))
            \<lparr>localMedia := Some (LocalMedia 101), peerCall := Some (utf16 ''c1'')\<rparr>"
  let ?new = "newMember exRemote ?dev exOptions"
  let ?was = "newMember exRemote (exDevice ''D1'' ''S1'') (exOptions\<lparr>confId := utf16 ''conf''\<rparr>)"
  have dk: "getMemberKey (utf16 ''@b'') (device_id ?dev) = ?k"
    and ds: "session_id ?dev = utf16 ''S2''"
    and rk: "getMemberKey (rm_userId exRemote) (device_id ?dev) = ?k"
    by (simp_all add: exDevice_def exRemote_def)
  have old: "map_of (members exLimbo) (getMemberKey (utf16 ''@b'') (device_id ?dev)) = Some ?was"
    unfolding dk by (simp add: exLimbo_eq)
  have oldj: "map_of (members exJoining) (getMemberKey (utf16 ''@b'') (device_id ?dev)) = Some ?old"
    unfolding dk by (simp add: exJoining_eq)
  have changed: "memberSessionId ?old \<noteq> session_id ?dev"
    by (simp add: exDevice_def utf16_def memberSessionId_def newMember_def)
  have changedl: "memberSessionId ?was \<noteq> session_id ?dev"
    by (simp add: exDevice_def utf16_def memberSessionId_def newMember_def)
  have notown: "\<not> (utf16 ''@b'' = ownUserId (memberOptions exLimbo)
                   \<and> device_id ?dev = ownDeviceId (memberOptions exLimbo))"
    by (simp add: exLimbo_eq exCall_def newGroupCall_def exOptions_def utf16_def)
  have notownj: "\<not> (utf16 ''@b'' = ownUserId (memberOptions exJoining)
                   \<and> device_id ?dev = ownDeviceId (memberOptions exJoining))"
    by (simp add: exJoining_eq exCall_def newGroupCall_def exOptions_def utf16_def)
  have st: "gc_state exLimbo = Joined" and jd: "joinedData exLimbo = None"
    and opts: "memberOptions exLimbo = exOptions"
    and nobuf: "bufferedDeviceMessages exLimbo = Map.empty"
    by (simp_all add: exLimbo_eq exCall_def newGroupCall_def exOptions_def)
  have jdj: "joinedData exJoining \<noteq> None" and hj: "hasJoined exJoining"
    by (simp_all add: exJoining_eq hasJoined_def)
  have del: "map_delete ?k (members exLimbo) = []"
    by (simp add: exLimbo_eq map_delete_def)
  have dis: "snd (disconnect False ?was) = [LogWrap ''disconnect'']"
    by (simp add: disconnect_def newMember_def)
  have flush: "flushPendingIncomingDeviceMessages ?new exLimbo = (?new, exLimbo, [])"
    by (simp add: flushPendingIncomingDeviceMessages_def nobuf)
  note t = C5_session_change_replaces_member [OF old changedl notown, where env = "exEnv None"
      and rm = exRemote and ts = 2000 and idx = 0, unfolded dk ds rk del dis append_Nil opts]
  from t st jd have h: "hasJoined exLimbo"
    and n: "ByMember ?k (LogWrap ''connect'')
        \<notin> set (snd (updateDeviceMembership (exEnv None) (utf16 ''@b'') exRemote 2000 0 ?dev exLimbo))"
    and c1: "snd (connectIfJoined (exEnv None) exLimbo ?new) = []"
    and c2: "fst (connectIfJoined (exEnv None) exLimbo ?new) = ?new"
    by blast+
  have rep: "replacementMember (exEnv None) exRemote ?dev exLimbo = ?new"
    unfolding replacementMember_def opts c2 flush by simp
  from t have "members (fst (updateDeviceMembership (exEnv None) (utf16 ''@b'') exRemote 2000 0
                   ?dev exLimbo)) = [(?k, replacementMember (exEnv None) exRemote ?dev exLimbo)]"
    by blast
  then have a: "members (fst (updateDeviceMembership (exEnv None) (utf16 ''@b'') exRemote 2000 0
                   ?dev exLimbo)) = [(?k, ?new)]"
    by (simp only: rep)
  from t have "snd (updateDeviceMembership (exEnv None) (utf16 ''@b'') exRemote 2000 0 ?dev exLimbo) =
      GLog ''removedSessionId''
      # map (ByMember ?k) [LogWrap ''disconnect'']
      @ GLog ''add''
      # snd (connectIfJoined (exEnv None) exLimbo ?new)
      @ snd (snd (flushPendingIncomingDeviceMessages
               (fst (connectIfJoined (exEnv None) exLimbo ?new)) exLimbo))"
    by blast
  then have e: "snd (updateDeviceMembership (exEnv None) (utf16 ''@b'') exRemote 2000 0 ?dev exLimbo) =
       [GLog ''removedSessionId'', ByMember ?k (LogWrap ''disconnect''), GLog ''add'']"
    by (simp only: c1 c2 flush snd_conv list.map append_Cons append_Nil)
  note tj = C5_session_change_replaces_member [OF oldj changed notownj, where env = "exEnv None"
      and rm = exRemote and ts = 2000 and idx = 0, unfolded dk ds rk]
  from tj jdj have p: "ByMember ?k (LogWrap ''connect'')
        \<in> set (snd (updateDeviceMembership (exEnv None) (utf16 ''@b'') exRemote 2000 0 ?dev exJoining))"
    by blast
  from h st jd a e n hj p show ?thesis by (intro conjI)
qed

section \<open>Leaving\<close>

lemma leave_effects:
  assumes "joinedData g = Some jd"
  shows "fst (leave env g) = fst (GroupCall_disconnect g)"
    and "fst (snd (leave env g)) =
           (case leaveCallMemberContent env g of
              None \<Rightarrow> [GLog ''already_left'']
            | Some c \<Rightarrow>
                SendState GroupCallMember (ownUserId (memberOptions g)) (MemberStateContent c)
                # (if sendMemberStateOk env \<and> intent g = Some Ring \<and> members g = []
                      \<and> gc_state g \<noteq> Fledgling
                   then [SendState GroupCallEvent (gc_id g)
                           (CallStateContent ((callContent g)\<lparr>m_terminated := True\<rparr>))]
                   else []))
           @ snd (GroupCall_disconnect g)"
  using assms
  by (auto simp: leave_def terminate_def Let_def split_beta split: option.splits)

lemma find_updateFirstCall:
  "(\<And>c. m_call_id (f c) = m_call_id c) \<Longrightarrow>
   find (\<lambda>c. m_call_id c = cid) (updateFirstCall cid f cs) =
     map_option f (find (\<lambda>c. m_call_id c = cid) cs)"
  by (induction cs) auto

lemma find_append_last: "find P xs = None \<Longrightarrow> P x \<Longrightarrow> find P (xs @ [x]) = Some x"
  by (induction xs) (auto split: if_splits)

lemma find_split: "\<forall>x \<in> set xs. \<not> P x \<Longrightarrow> P y \<Longrightarrow> find P (xs @ y # ys) = Some y"
  by (induction xs) auto

lemma updateFirstCall_split:
  "\<forall>c \<in> set xs. m_call_id c \<noteq> cid \<Longrightarrow> m_call_id y = cid \<Longrightarrow>
   updateFirstCall cid f (xs @ y # ys) = xs @ f y # ys"
  by (induction xs) auto

lemma removeFirst_split: "\<forall>x \<in> set xs. \<not> P x \<Longrightarrow> P y \<Longrightarrow> removeFirst P (xs @ y # ys) = xs @ ys"
  by (induction xs) auto

lemma find_joinDevices:
  "find (\<lambda>d. device_id d = ownDeviceId (memberOptions g)) (joinDevices g ds) = Some (ownDevice g)"
  unfolding joinDevices_def
  by (induction ds) (auto simp: ownDevice_def)

lemma removeFirst_joinDevices:
  "removeFirst (\<lambda>d. device_id d = ownDeviceId (memberOptions g)) (joinDevices g ds) =
     filter (\<lambda>d. device_id d \<noteq> ownDeviceId (memberOptions g)) ds"
  unfolding joinDevices_def
  by (induction ds) (auto simp: ownDevice_def)

lemma device_listed:
  "k \<in> device_id ` set ds \<longleftrightarrow> find (\<lambda>d. device_id d = k) ds \<noteq> None"
  by (auto simp: find_None_iff)

lemma leaveCallMemberContent_listed:
  "leaveCallMemberContent env g \<noteq> None \<longleftrightarrow>
     (case stored env of
        None \<Rightarrow> False
      | Some content \<Rightarrow>
          (case m_calls content of
             None \<Rightarrow> False
           | Some calls \<Rightarrow>
               (case find (\<lambda>c. m_call_id c = gc_id g) calls of
                  None \<Rightarrow> False
                | Some callInfo \<Rightarrow>
                    ownDeviceId (memberOptions g) \<in> device_id ` set (m_devices callInfo))))"
  by (auto simp: leaveCallMemberContent_def device_listed split: option.splits)

lemma leaveCallMemberContent_split:
  assumes "stored env = Some content" and "m_calls content = Some (calls @ callInfo # calls')"
    and "\<forall>c \<in> set calls. m_call_id c \<noteq> gc_id g" and "m_call_id callInfo = gc_id g"
    and "m_devices callInfo = devices @ device # devices'"
    and "\<forall>d \<in> set devices. device_id d \<noteq> ownDeviceId (memberOptions g)"
    and "device_id device = ownDeviceId (memberOptions g)"
  shows "leaveCallMemberContent env g =
           Some (content\<lparr>m_calls :=
                   Some (calls @ callInfo\<lparr>m_devices := devices @ devices'\<rparr> # calls')\<rparr>)"
proof -
  have f: "find (\<lambda>c. m_call_id c = gc_id g) (calls @ callInfo # calls') = Some callInfo"
    using assms(3,4) by (intro find_split) simp_all
  have d: "find (\<lambda>d. device_id d = ownDeviceId (memberOptions g)) (m_devices callInfo) = Some device"
    unfolding assms(5) using assms(6,7) by (intro find_split) simp_all
  have u: "updateFirstCall (gc_id g)
             (\<lambda>c. c\<lparr>m_devices := removeFirst (\<lambda>d. device_id d = ownDeviceId (memberOptions g))
                                    (m_devices c)\<rparr>) (calls @ callInfo # calls') =
           calls @ callInfo\<lparr>m_devices := removeFirst (\<lambda>d. device_id d = ownDeviceId (memberOptions g))
                                    (m_devices callInfo)\<rparr> # calls'"
    using assms(3,4) by (intro updateFirstCall_split) simp_all
  have r: "removeFirst (\<lambda>d. device_id d = ownDeviceId (memberOptions g)) (m_devices callInfo) =
           devices @ devices'"
    unfolding assms(5) using assms(6,7) by (intro removeFirst_split) simp_all
  show ?thesis
    by (simp add: leaveCallMemberContent_def assms(1,2) f d u r)
qed

lemma leave_after_join_payload:
  assumes "createJoinPayload env g = Inr (c, idx)" and "gc_id g' = gc_id g" and "memberOptions g' = memberOptions g"
  shows "leaveCallMemberContent (env'\<lparr>stored := Some c\<rparr>) g' \<noteq> None"
proof -
  let ?st = "case stored env of None \<Rightarrow> \<lparr>m_calls = Some []\<rparr> | Some c \<Rightarrow> c"
  from assms(1) obtain callsInfo where ci: "m_calls ?st = Some callsInfo"
    by (auto simp: createJoinPayload_def Let_def split: option.splits)
  show ?thesis
  proof (cases "find (\<lambda>c. m_call_id c = gc_id g) callsInfo")
    case None
    with assms ci have c: "m_calls c = Some (callsInfo @ [\<lparr>m_call_id = gc_id g, m_devices = joinDevices g []\<rparr>])"
      by (auto simp: createJoinPayload_def Let_def split: option.splits)
    from None have "find (\<lambda>c. m_call_id c = gc_id g)
        (callsInfo @ [\<lparr>m_call_id = gc_id g, m_devices = joinDevices g []\<rparr>])
        = Some \<lparr>m_call_id = gc_id g, m_devices = joinDevices g []\<rparr>"
      by (rule find_append_last) simp
    with c assms(2,3) find_joinDevices [of g "[]"] show ?thesis
      by (simp add: leaveCallMemberContent_def)
  next
    case (Some callInfo)
    with assms ci have c: "m_calls c = Some (updateFirstCall (gc_id g)
                              (\<lambda>c. c\<lparr>m_devices := joinDevices g (m_devices c)\<rparr>) callsInfo)"
      by (auto simp: createJoinPayload_def Let_def split: option.splits)
    have "find (\<lambda>c. m_call_id c = gc_id g) (updateFirstCall (gc_id g)
            (\<lambda>c. c\<lparr>m_devices := joinDevices g (m_devices c)\<rparr>) callsInfo)
          = Some (callInfo\<lparr>m_devices := joinDevices g (m_devices callInfo)\<rparr>)"
      using Some by (simp add: find_updateFirstCall)
    with c assms(2,3) find_joinDevices [of g "m_devices callInfo"] show ?thesis
      by (simp add: leaveCallMemberContent_def)
  qed
qed

lemma leaveCallMemberContent_cong:
  "gc_id g' = gc_id g \<Longrightarrow> memberOptions g' = memberOptions g \<Longrightarrow>
   leaveCallMemberContent env g' = leaveCallMemberContent env g"
  by (simp add: leaveCallMemberContent_def split: option.splits)

lemma join_alone:
  assumes "gc_state g = Created" and "joinedData g = None" and "members g = []"
    and "turnServerOk env" and "sendMemberStateOk env"
    and "createJoinPayload env g = Inr (c, idx)"
  shows "join lm env g =
           (g\<lparr>joinedData := Some \<lparr>jd_localMedia = lm\<rparr>, gc_state := Joining,
              deviceIndex := Some idx, eventTimestamp := Some (now env), members := []\<rparr>,
            [EmitChange,
             SendState GroupCallMember (ownUserId (memberOptions g)) (MemberStateContent c),
             EmitChange],
            Returned)"
proof -
  have eq: "createJoinPayload env (g\<lparr>joinedData := Some \<lparr>jd_localMedia = lm\<rparr>, gc_state := Joining\<rparr>)
          = createJoinPayload env g"
    by (simp add: createJoinPayload_def joinDevices_def ownDevice_def Let_def split: option.splits)
  from assms eq show ?thesis
    by (simp add: join_def Let_def)
qed

lemma disconnect_not_Joined:
  "gc_state g \<noteq> Joined \<Longrightarrow>
   GroupCall_disconnect g =
     (g\<lparr>joinedData := None\<rparr>,
      (case joinedData g of
         None \<Rightarrow> []
       | Some jd \<Rightarrow> [DisposeLocalMedia (jd_localMedia jd), LogItemFinish]) @ [EmitChange])"
  by (simp add: GroupCall_disconnect_def)

lemma disconnect_Joined:
  "gc_state g = Joined \<Longrightarrow>
   GroupCall_disconnect g =
     (g\<lparr>members := fst (disconnectAll True (members g)), gc_state := Created, joinedData := None\<rparr>,
      snd (disconnectAll True (members g))
      @ (case joinedData g of
           None \<Rightarrow> []
         | Some jd \<Rightarrow> [DisposeLocalMedia (jd_localMedia jd), LogItemFinish]) @ [EmitChange])"
  by (simp add: GroupCall_disconnect_def split_beta)

lemma leave_Joining:
  assumes "gc_state g = Joining" and "joinedData g = Some jd"
  shows "fst (leave env g) = g\<lparr>joinedData := None\<rparr>"
  using assms leave_effects(1) [OF assms(2), of env]
  by (simp add: disconnect_not_Joined)

lemma disconnectAll_only_ByMember: "e \<in> set (snd (disconnectAll h ms)) \<Longrightarrow> \<exists>k x. e = ByMember k x"
  by (induction ms arbitrary: e) (auto simp: split_beta)

lemma disconnectAll_keys [simp]: "map fst (fst (disconnectAll h ms)) = map fst ms"
  by (induction ms) (auto simp: split_beta)

lemma SendState_not_in_disconnect:
  "SendState t k c \<notin> set (snd (GroupCall_disconnect g))"
  by (auto simp: GroupCall_disconnect_def Let_def split_beta
      dest: disconnectAll_only_ByMember split: option.splits if_splits)

lemma own_membership_returns:
  assumes "gc_state g = Joining" and "members g = []"
  shows "updateMembership env (ownUserId (memberOptions g)) rm [ownDevice g] ts g =
           (g\<lparr>deviceIndex := Some 0, eventTimestamp := Some ts, gc_state := Joined\<rparr>,
            [GLog ''update_own'', EmitChange])"
  using assms
  by (simp add: updateMembership_def updateDeviceMembership_def getDeviceIdsForUserId_def
      ownDevice_def Let_def)

text \<open>
  C6: \<open>leave\<close> on a call with \<open>joinedData\<close> set ends with \<open>disconnect\<close> on every path; from
  state Joined the call is then in state Created without \<open>joinedData\<close>, with the same
  member keys. What it sends before depends on the stored own member state event. When
  that event lists the own device under this call, \<open>leave\<close> sends it with the first entry
  of the own device taken out of the devices of the first entry of this call, all else as
  stored, and after it the call state event with \<open>m.terminated = true\<close> if and only if the
  first request succeeded, the intent is Ring, the members map is empty and the state is
  not Fledgling. When the stored event does not list the own device under this call,
  \<open>leave\<close> sends nothing and logs "already_left".

  \<open>join\<close> sends the member event with the own device but does not store it. So in a
  \<open>join; leave\<close> cycle of a call with intent Ring and no members, run while the storage
  does not list the own device, \<open>leave\<close> sends neither event: the own device stays in the
  member state event that \<open>join\<close> sent, the conference is not terminated, and the state
  stays Joining. Once the event that \<open>join\<close> sent is stored and the own membership has
  come back, \<open>leave\<close> sends both events and ends in state Created with no members and no
  \<open>joinedData\<close>.
\<close>

theorem C6_leave_sends_what_storage_lists:
  "(joinedData g = Some jd \<longrightarrow>
      fst (leave env g) = fst (GroupCall_disconnect g)
      \<and> fst (snd (leave env g)) =
          (case leaveCallMemberContent env g of
             None \<Rightarrow> [GLog ''already_left'']
           | Some c \<Rightarrow>
               SendState GroupCallMember (ownUserId (memberOptions g)) (MemberStateContent c)
               # (if sendMemberStateOk env \<and> intent g = Some Ring \<and> members g = []
                     \<and> gc_state g \<noteq> Fledgling
                  then [SendState GroupCallEvent (gc_id g)
                          (CallStateContent ((callContent g)\<lparr>m_terminated := True\<rparr>))]
                  else []))
          @ snd (GroupCall_disconnect g)
      \<and> (SendState GroupCallEvent (gc_id g)
            (CallStateContent ((callContent g)\<lparr>m_terminated := True\<rparr>))
            \<in> set (fst (snd (leave env g))) \<longleftrightarrow>
          leaveCallMemberContent env g \<noteq> None \<and> sendMemberStateOk env
          \<and> intent g = Some Ring \<and> members g = [] \<and> gc_state g \<noteq> Fledgling)
      \<and> (gc_state g = Joined \<longrightarrow>
           gc_state (fst (leave env g)) = Created \<and> joinedData (fst (leave env g)) = None
           \<and> map fst (members (fst (leave env g))) = map fst (members g)))
   \<and> (leaveCallMemberContent env g \<noteq> None \<longleftrightarrow>
        (case stored env of
           None \<Rightarrow> False
         | Some content \<Rightarrow>
             (case m_calls content of
                None \<Rightarrow> False
              | Some calls \<Rightarrow>
                  (case find (\<lambda>c. m_call_id c = gc_id g) calls of
                     None \<Rightarrow> False
                   | Some callInfo \<Rightarrow>
                       ownDeviceId (memberOptions g) \<in> device_id ` set (m_devices callInfo)))))
   \<and> (stored env = Some content \<and> m_calls content = Some (calls @ callInfo # calls')
        \<and> (\<forall>c \<in> set calls. m_call_id c \<noteq> gc_id g) \<and> m_call_id callInfo = gc_id g
        \<and> m_devices callInfo = devices @ device # devices'
        \<and> (\<forall>d \<in> set devices. device_id d \<noteq> ownDeviceId (memberOptions g))
        \<and> device_id device = ownDeviceId (memberOptions g) \<longrightarrow>
        leaveCallMemberContent env g =
          Some (content\<lparr>m_calls :=
                  Some (calls @ callInfo\<lparr>m_devices := devices @ devices'\<rparr> # calls')\<rparr>))
   \<and> (gc_state pre = Created \<and> joinedData pre = None \<and> members pre = []
        \<and> intent pre = Some Ring \<and> turnServerOk e \<and> sendMemberStateOk e
        \<and> createJoinPayload e pre = Inr (sent, idx) \<longrightarrow>
        fst (snd (join lm e pre)) =
          [EmitChange,
           SendState GroupCallMember (ownUserId (memberOptions pre)) (MemberStateContent sent),
           EmitChange]
        \<and> leaveCallMemberContent (e\<lparr>stored := Some sent\<rparr>) pre \<noteq> None
        \<and> (leaveCallMemberContent e pre = None \<longrightarrow>
             fst (snd (leave e (fst (join lm e pre)))) =
               [GLog ''already_left'', DisposeLocalMedia lm, LogItemFinish, EmitChange]
             \<and> gc_state (fst (leave e (fst (join lm e pre)))) = Joining)
        \<and> fst (snd (leave (e\<lparr>stored := Some sent\<rparr>)
                 (fst (updateMembership (e\<lparr>stored := Some sent\<rparr>) (ownUserId (memberOptions pre))
                         rm [ownDevice pre] ts (fst (join lm e pre)))))) =
            [SendState GroupCallMember (ownUserId (memberOptions pre))
               (MemberStateContent (the (leaveCallMemberContent (e\<lparr>stored := Some sent\<rparr>) pre))),
             SendState GroupCallEvent (gc_id pre)
               (CallStateContent ((callContent pre)\<lparr>m_terminated := True\<rparr>)),
             DisposeLocalMedia lm, LogItemFinish, EmitChange]
        \<and> gc_state (fst (leave (e\<lparr>stored := Some sent\<rparr>)
                 (fst (updateMembership (e\<lparr>stored := Some sent\<rparr>) (ownUserId (memberOptions pre))
                         rm [ownDevice pre] ts (fst (join lm e pre)))))) = Created
        \<and> members (fst (leave (e\<lparr>stored := Some sent\<rparr>)
                 (fst (updateMembership (e\<lparr>stored := Some sent\<rparr>) (ownUserId (memberOptions pre))
                         rm [ownDevice pre] ts (fst (join lm e pre)))))) = []
        \<and> joinedData (fst (leave (e\<lparr>stored := Some sent\<rparr>)
                 (fst (updateMembership (e\<lparr>stored := Some sent\<rparr>) (ownUserId (memberOptions pre))
                         rm [ownDevice pre] ts (fst (join lm e pre)))))) = None)"
proof (intro conjI)
  show "joinedData g = Some jd \<longrightarrow>
      fst (leave env g) = fst (GroupCall_disconnect g)
      \<and> fst (snd (leave env g)) =
          (case leaveCallMemberContent env g of
             None \<Rightarrow> [GLog ''already_left'']
           | Some c \<Rightarrow>
               SendState GroupCallMember (ownUserId (memberOptions g)) (MemberStateContent c)
               # (if sendMemberStateOk env \<and> intent g = Some Ring \<and> members g = []
                     \<and> gc_state g \<noteq> Fledgling
                  then [SendState GroupCallEvent (gc_id g)
                          (CallStateContent ((callContent g)\<lparr>m_terminated := True\<rparr>))]
                  else []))
          @ snd (GroupCall_disconnect g)
      \<and> (SendState GroupCallEvent (gc_id g)
            (CallStateContent ((callContent g)\<lparr>m_terminated := True\<rparr>))
            \<in> set (fst (snd (leave env g))) \<longleftrightarrow>
          leaveCallMemberContent env g \<noteq> None \<and> sendMemberStateOk env
          \<and> intent g = Some Ring \<and> members g = [] \<and> gc_state g \<noteq> Fledgling)
      \<and> (gc_state g = Joined \<longrightarrow>
           gc_state (fst (leave env g)) = Created \<and> joinedData (fst (leave env g)) = None
           \<and> map fst (members (fst (leave env g))) = map fst (members g))"
  proof (intro impI conjI)
    assume jd: "joinedData g = Some jd"
    note le = leave_effects [OF jd, of env]
    show "fst (leave env g) = fst (GroupCall_disconnect g)" by (rule le(1))
    show "fst (snd (leave env g)) =
          (case leaveCallMemberContent env g of
             None \<Rightarrow> [GLog ''already_left'']
           | Some c \<Rightarrow>
               SendState GroupCallMember (ownUserId (memberOptions g)) (MemberStateContent c)
               # (if sendMemberStateOk env \<and> intent g = Some Ring \<and> members g = []
                     \<and> gc_state g \<noteq> Fledgling
                  then [SendState GroupCallEvent (gc_id g)
                          (CallStateContent ((callContent g)\<lparr>m_terminated := True\<rparr>))]
                  else []))
          @ snd (GroupCall_disconnect g)" by (rule le(2))
    show "SendState GroupCallEvent (gc_id g)
            (CallStateContent ((callContent g)\<lparr>m_terminated := True\<rparr>))
            \<in> set (fst (snd (leave env g))) \<longleftrightarrow>
          leaveCallMemberContent env g \<noteq> None \<and> sendMemberStateOk env
          \<and> intent g = Some Ring \<and> members g = [] \<and> gc_state g \<noteq> Fledgling"
      unfolding le(2) by (auto simp: SendState_not_in_disconnect split: option.splits)
    assume st: "gc_state g = Joined"
    show "gc_state (fst (leave env g)) = Created" "joinedData (fst (leave env g)) = None"
      "map fst (members (fst (leave env g))) = map fst (members g)"
      unfolding le(1) by (simp_all add: disconnect_Joined [OF st])
  qed
next
  show "leaveCallMemberContent env g \<noteq> None \<longleftrightarrow>
        (case stored env of
           None \<Rightarrow> False
         | Some content \<Rightarrow>
             (case m_calls content of
                None \<Rightarrow> False
              | Some calls \<Rightarrow>
                  (case find (\<lambda>c. m_call_id c = gc_id g) calls of
                     None \<Rightarrow> False
                   | Some callInfo \<Rightarrow>
                       ownDeviceId (memberOptions g) \<in> device_id ` set (m_devices callInfo))))"
    by (rule leaveCallMemberContent_listed)
next
  show "stored env = Some content \<and> m_calls content = Some (calls @ callInfo # calls')
        \<and> (\<forall>c \<in> set calls. m_call_id c \<noteq> gc_id g) \<and> m_call_id callInfo = gc_id g
        \<and> m_devices callInfo = devices @ device # devices'
        \<and> (\<forall>d \<in> set devices. device_id d \<noteq> ownDeviceId (memberOptions g))
        \<and> device_id device = ownDeviceId (memberOptions g) \<longrightarrow>
        leaveCallMemberContent env g =
          Some (content\<lparr>m_calls :=
                  Some (calls @ callInfo\<lparr>m_devices := devices @ devices'\<rparr> # calls')\<rparr>)"
    by (intro impI leaveCallMemberContent_split) blast+
next
  show "gc_state pre = Created \<and> joinedData pre = None \<and> members pre = []
        \<and> intent pre = Some Ring \<and> turnServerOk e \<and> sendMemberStateOk e
        \<and> createJoinPayload e pre = Inr (sent, idx) \<longrightarrow>
        fst (snd (join lm e pre)) =
          [EmitChange,
           SendState GroupCallMember (ownUserId (memberOptions pre)) (MemberStateContent sent),
           EmitChange]
        \<and> leaveCallMemberContent (e\<lparr>stored := Some sent\<rparr>) pre \<noteq> None
        \<and> (leaveCallMemberContent e pre = None \<longrightarrow>
             fst (snd (leave e (fst (join lm e pre)))) =
               [GLog ''already_left'', DisposeLocalMedia lm, LogItemFinish, EmitChange]
             \<and> gc_state (fst (leave e (fst (join lm e pre)))) = Joining)
        \<and> fst (snd (leave (e\<lparr>stored := Some sent\<rparr>)
                 (fst (updateMembership (e\<lparr>stored := Some sent\<rparr>) (ownUserId (memberOptions pre))
                         rm [ownDevice pre] ts (fst (join lm e pre)))))) =
            [SendState GroupCallMember (ownUserId (memberOptions pre))
               (MemberStateContent (the (leaveCallMemberContent (e\<lparr>stored := Some sent\<rparr>) pre))),
             SendState GroupCallEvent (gc_id pre)
               (CallStateContent ((callContent pre)\<lparr>m_terminated := True\<rparr>)),
             DisposeLocalMedia lm, LogItemFinish, EmitChange]
        \<and> gc_state (fst (leave (e\<lparr>stored := Some sent\<rparr>)
                 (fst (updateMembership (e\<lparr>stored := Some sent\<rparr>) (ownUserId (memberOptions pre))
                         rm [ownDevice pre] ts (fst (join lm e pre)))))) = Created
        \<and> members (fst (leave (e\<lparr>stored := Some sent\<rparr>)
                 (fst (updateMembership (e\<lparr>stored := Some sent\<rparr>) (ownUserId (memberOptions pre))
                         rm [ownDevice pre] ts (fst (join lm e pre)))))) = []
        \<and> joinedData (fst (leave (e\<lparr>stored := Some sent\<rparr>)
                 (fst (updateMembership (e\<lparr>stored := Some sent\<rparr>) (ownUserId (memberOptions pre))
                         rm [ownDevice pre] ts (fst (join lm e pre)))))) = None"
  proof (intro impI)
    assume h: "gc_state pre = Created \<and> joinedData pre = None \<and> members pre = []
        \<and> intent pre = Some Ring \<and> turnServerOk e \<and> sendMemberStateOk e
        \<and> createJoinPayload e pre = Inr (sent, idx)"
    let ?g1 = "pre\<lparr>joinedData := Some \<lparr>jd_localMedia = lm\<rparr>, gc_state := Joining,
                 deviceIndex := Some idx, eventTimestamp := Some (now e), members := []\<rparr>"
    let ?g2 = "?g1\<lparr>deviceIndex := Some 0, eventTimestamp := Some ts, gc_state := Joined\<rparr>"
    let ?e = "e\<lparr>stored := Some sent\<rparr>"
    from h have j: "join lm e pre =
        (?g1, [EmitChange,
               SendState GroupCallMember (ownUserId (memberOptions pre)) (MemberStateContent sent),
               EmitChange], Returned)"
      by (intro join_alone) simp_all
    from h have listed: "leaveCallMemberContent ?e pre \<noteq> None"
      by (intro leave_after_join_payload [where g = pre and env = e and idx = idx]) simp_all
    then obtain c where c: "leaveCallMemberContent ?e pre = Some c" by blast
    have c1: "leaveCallMemberContent env' ?g1 = leaveCallMemberContent env' pre" for env'
      by (rule leaveCallMemberContent_cong) simp_all
    have c2: "leaveCallMemberContent env' ?g2 = leaveCallMemberContent env' pre" for env'
      by (rule leaveCallMemberContent_cong) simp_all
    have jd1: "joinedData ?g1 = Some \<lparr>jd_localMedia = lm\<rparr>" by simp
    have jd2: "joinedData ?g2 = Some \<lparr>jd_localMedia = lm\<rparr>" by simp
    have stale: "fst (snd (leave e ?g1)) =
               [GLog ''already_left'', DisposeLocalMedia lm, LogItemFinish, EmitChange]
             \<and> gc_state (fst (leave e ?g1)) = Joining"
      if "leaveCallMemberContent e pre = None"
      using that leave_effects [OF jd1, of e]
      by (simp add: c1 disconnect_not_Joined)
    have own: "ownUserId (memberOptions ?g1) = ownUserId (memberOptions pre)"
      "ownDevice ?g1 = ownDevice pre"
      by (simp_all add: ownDevice_def)
    have "updateMembership ?e (ownUserId (memberOptions ?g1)) rm [ownDevice ?g1] ts ?g1 =
            (?g2, [GLog ''update_own'', EmitChange])"
      by (rule own_membership_returns) simp_all
    then have echo: "fst (updateMembership ?e (ownUserId (memberOptions pre)) rm [ownDevice pre] ts ?g1) = ?g2"
      unfolding own by simp
    from h have ring: "intent ?g2 = Some Ring" and ok: "sendMemberStateOk ?e"
      by (simp_all add: intent_def)
    have st2: "gc_state ?g2 = Joined" by simp
    have dj: "GroupCall_disconnect ?g2 =
        (?g2\<lparr>members := [], gc_state := Created, joinedData := None\<rparr>,
         [DisposeLocalMedia lm, LogItemFinish, EmitChange])"
      by (simp add: GroupCall_disconnect_def)
    have lc: "leaveCallMemberContent ?e ?g2 = Some c"
      by (simp only: c2 c)
    note le2 = leave_effects(2) [OF jd2, of ?e, unfolded lc option.case]
    have fresh: "fst (snd (leave ?e ?g2)) =
            [SendState GroupCallMember (ownUserId (memberOptions pre)) (MemberStateContent c),
             SendState GroupCallEvent (gc_id pre)
               (CallStateContent ((callContent pre)\<lparr>m_terminated := True\<rparr>)),
             DisposeLocalMedia lm, LogItemFinish, EmitChange]"
      by (subst le2, subst dj) (use ring ok in simp)
    have after: "fst (leave ?e ?g2) = ?g2\<lparr>members := [], gc_state := Created, joinedData := None\<rparr>"
      by (subst leave_effects(1) [OF jd2, of ?e], subst dj) simp
    show "fst (snd (join lm e pre)) =
          [EmitChange,
           SendState GroupCallMember (ownUserId (memberOptions pre)) (MemberStateContent sent),
           EmitChange]
        \<and> leaveCallMemberContent ?e pre \<noteq> None
        \<and> (leaveCallMemberContent e pre = None \<longrightarrow>
             fst (snd (leave e (fst (join lm e pre)))) =
               [GLog ''already_left'', DisposeLocalMedia lm, LogItemFinish, EmitChange]
             \<and> gc_state (fst (leave e (fst (join lm e pre)))) = Joining)
        \<and> fst (snd (leave ?e
                 (fst (updateMembership ?e (ownUserId (memberOptions pre))
                         rm [ownDevice pre] ts (fst (join lm e pre)))))) =
            [SendState GroupCallMember (ownUserId (memberOptions pre))
               (MemberStateContent (the (leaveCallMemberContent ?e pre))),
             SendState GroupCallEvent (gc_id pre)
               (CallStateContent ((callContent pre)\<lparr>m_terminated := True\<rparr>)),
             DisposeLocalMedia lm, LogItemFinish, EmitChange]
        \<and> gc_state (fst (leave ?e
                 (fst (updateMembership ?e (ownUserId (memberOptions pre))
                         rm [ownDevice pre] ts (fst (join lm e pre)))))) = Created
        \<and> members (fst (leave ?e
                 (fst (updateMembership ?e (ownUserId (memberOptions pre))
                         rm [ownDevice pre] ts (fst (join lm e pre)))))) = []
        \<and> joinedData (fst (leave ?e
                 (fst (updateMembership ?e (ownUserId (memberOptions pre))
                         rm [ownDevice pre] ts (fst (join lm e pre)))))) = None"
      unfolding j fst_conv snd_conv echo
      using listed stale fresh after c by simp
  qed
qed

theorem C6_leave_sends_what_storage_lists_witness:
  "fst (snd (join (LocalMedia 1) (exEnv None) (exCall Ring))) =
     [EmitChange,
      SendState GroupCallMember (utf16 ''@a'') (MemberStateContent exJoinContent),
      EmitChange]
   \<and> fst (snd (leave (exEnv None) exJoiningAlone)) =
       [GLog ''already_left'', DisposeLocalMedia (LocalMedia 1), LogItemFinish, EmitChange]
   \<and> gc_state (fst (leave (exEnv None) exJoiningAlone)) = Joining
   \<and> leaveCallMemberContent (exEnv (Some exJoinContent)) (exCall Ring) =
       Some \<lparr>m_calls = Some [\<lparr>m_call_id = utf16 ''conf'', m_devices = []\<rparr>]\<rparr>
   \<and> fst (snd (leave (exEnv (Some exJoinContent)) exJoinedAlone)) =
       [SendState GroupCallMember (utf16 ''@a'')
          (MemberStateContent \<lparr>m_calls = Some [\<lparr>m_call_id = utf16 ''conf'', m_devices = []\<rparr>]\<rparr>),
        SendState GroupCallEvent (utf16 ''conf'')
          (CallStateContent \<lparr>m_intent = Some Ring, m_type = Some Video, m_name = None,
                              m_terminated = True\<rparr>),
        DisposeLocalMedia (LocalMedia 1), LogItemFinish, EmitChange]
   \<and> gc_state (fst (leave (exEnv (Some exJoinContent)) exJoinedAlone)) = Created
   \<and> members (fst (leave (exEnv (Some exJoinContent)) exJoinedAlone)) = []
   \<and> joinedData (fst (leave (exEnv (Some exJoinContent)) exJoinedAlone)) = None"
proof -
  let ?left = "\<lparr>m_calls = Some [\<lparr>m_call_id = utf16 ''conf'', m_devices = []\<rparr>]\<rparr>"
  let ?ci = "\<lparr>m_call_id = utf16 ''conf'', m_devices = [exDevice ''D0'' ''S0'']\<rparr>"
  have pay: "createJoinPayload (exEnv None) (exCall Ring) = Inr (exJoinContent, 1)"
    by (simp add: createJoinPayload_def joinDevices_def ownDevice_def exCall_def newGroupCall_def
        exEnv_def exJoinContent_def exDevice_def exOptions_def Let_def)
  have e: "(exEnv None)\<lparr>stored := Some exJoinContent\<rparr> = exEnv (Some exJoinContent)"
    by (simp add: exEnv_def)
  have h: "gc_state (exCall Ring) = Created \<and> joinedData (exCall Ring) = None
           \<and> members (exCall Ring) = [] \<and> intent (exCall Ring) = Some Ring
           \<and> turnServerOk (exEnv None) \<and> sendMemberStateOk (exEnv None)
           \<and> createJoinPayload (exEnv None) (exCall Ring) = Inr (exJoinContent, 1)"
    unfolding pay by (simp add: exCall_def newGroupCall_def exEnv_def intent_def)
  have own: "ownUserId (memberOptions (exCall Ring)) = utf16 ''@a''"
    and dev: "ownDevice (exCall Ring) = exDevice ''D0'' ''S0''"
    and cid: "gc_id (exCall Ring) = utf16 ''conf''"
    and cc: "(callContent (exCall Ring))\<lparr>m_terminated := True\<rparr> =
               \<lparr>m_intent = Some Ring, m_type = Some Video, m_name = None, m_terminated = True\<rparr>"
    by (simp_all add: exCall_def newGroupCall_def exOptions_def ownDevice_def exDevice_def)
  have stale: "leaveCallMemberContent (exEnv None) (exCall Ring) = None"
    by (simp add: leaveCallMemberContent_def exEnv_def)
  have d: "stored (exEnv (Some exJoinContent)) = Some exJoinContent
        \<and> m_calls exJoinContent = Some ([] @ ?ci # [])
        \<and> (\<forall>c \<in> set []. m_call_id c \<noteq> gc_id (exCall Ring)) \<and> m_call_id ?ci = gc_id (exCall Ring)
        \<and> m_devices ?ci = [] @ exDevice ''D0'' ''S0'' # []
        \<and> (\<forall>d \<in> set []. device_id d \<noteq> ownDeviceId (memberOptions (exCall Ring)))
        \<and> device_id (exDevice ''D0'' ''S0'') = ownDeviceId (memberOptions (exCall Ring))"
    by (simp add: exEnv_def exJoinContent_def exCall_def newGroupCall_def exOptions_def exDevice_def)
  have upd: "exJoinContent\<lparr>m_calls := Some ([] @ ?ci\<lparr>m_devices := [] @ []\<rparr> # [])\<rparr> = ?left"
    by (simp add: exJoinContent_def)
  note t = C6_leave_sends_what_storage_lists [where g = "exCall Ring"
      and env = "exEnv (Some exJoinContent)" and content = exJoinContent
      and calls = "[]" and callInfo = ?ci and calls' = "[]"
      and devices = "[]" and device = "exDevice ''D0'' ''S0''" and devices' = "[]"
      and pre = "exCall Ring" and e = "exEnv None" and sent = exJoinContent and idx = 1
      and lm = "LocalMedia 1" and rm = exOwn and ts = 1500]
  from t d have "leaveCallMemberContent (exEnv (Some exJoinContent)) (exCall Ring) =
      Some (exJoinContent\<lparr>m_calls := Some ([] @ ?ci\<lparr>m_devices := [] @ []\<rparr> # [])\<rparr>)"
    by blast
  then have lc: "leaveCallMemberContent (exEnv (Some exJoinContent)) (exCall Ring) = Some ?left"
    by (simp only: upd)
  from t h stale
  have "fst (snd (join (LocalMedia 1) (exEnv None) (exCall Ring))) =
          [EmitChange,
           SendState GroupCallMember (ownUserId (memberOptions (exCall Ring)))
             (MemberStateContent exJoinContent),
           EmitChange]"
    and "fst (snd (leave (exEnv None) (fst (join (LocalMedia 1) (exEnv None) (exCall Ring))))) =
           [GLog ''already_left'', DisposeLocalMedia (LocalMedia 1), LogItemFinish, EmitChange]"
    and "gc_state (fst (leave (exEnv None) (fst (join (LocalMedia 1) (exEnv None) (exCall Ring))))) =
           Joining"
    and "fst (snd (leave ((exEnv None)\<lparr>stored := Some exJoinContent\<rparr>)
                 (fst (updateMembership ((exEnv None)\<lparr>stored := Some exJoinContent\<rparr>)
                         (ownUserId (memberOptions (exCall Ring)))
                         exOwn [ownDevice (exCall Ring)] 1500
                         (fst (join (LocalMedia 1) (exEnv None) (exCall Ring))))))) =
            [SendState GroupCallMember (ownUserId (memberOptions (exCall Ring)))
               (MemberStateContent
                  (the (leaveCallMemberContent ((exEnv None)\<lparr>stored := Some exJoinContent\<rparr>)
                          (exCall Ring)))),
             SendState GroupCallEvent (gc_id (exCall Ring))
               (CallStateContent ((callContent (exCall Ring))\<lparr>m_terminated := True\<rparr>)),
             DisposeLocalMedia (LocalMedia 1), LogItemFinish, EmitChange]"
    and "gc_state (fst (leave ((exEnv None)\<lparr>stored := Some exJoinContent\<rparr>)
                 (fst (updateMembership ((exEnv None)\<lparr>stored := Some exJoinContent\<rparr>)
                         (ownUserId (memberOptions (exCall Ring)))
                         exOwn [ownDevice (exCall Ring)] 1500
                         (fst (join (LocalMedia 1) (exEnv None) (exCall Ring))))))) = Created"
    and "members (fst (leave ((exEnv None)\<lparr>stored := Some exJoinContent\<rparr>)
                 (fst (updateMembership ((exEnv None)\<lparr>stored := Some exJoinContent\<rparr>)
                         (ownUserId (memberOptions (exCall Ring)))
                         exOwn [ownDevice (exCall Ring)] 1500
                         (fst (join (LocalMedia 1) (exEnv None) (exCall Ring))))))) = []"
    and "joinedData (fst (leave ((exEnv None)\<lparr>stored := Some exJoinContent\<rparr>)
                 (fst (updateMembership ((exEnv None)\<lparr>stored := Some exJoinContent\<rparr>)
                         (ownUserId (memberOptions (exCall Ring)))
                         exOwn [ownDevice (exCall Ring)] 1500
                         (fst (join (LocalMedia 1) (exEnv None) (exCall Ring))))))) = None"
    by blast+
  then have a: "fst (snd (join (LocalMedia 1) (exEnv None) (exCall Ring))) =
     [EmitChange,
      SendState GroupCallMember (utf16 ''@a'') (MemberStateContent exJoinContent),
      EmitChange]"
    and b: "fst (snd (leave (exEnv None) exJoiningAlone)) =
       [GLog ''already_left'', DisposeLocalMedia (LocalMedia 1), LogItemFinish, EmitChange]"
    and c: "gc_state (fst (leave (exEnv None) exJoiningAlone)) = Joining"
    and f: "fst (snd (leave (exEnv (Some exJoinContent)) exJoinedAlone)) =
       [SendState GroupCallMember (utf16 ''@a'') (MemberStateContent ?left),
        SendState GroupCallEvent (utf16 ''conf'')
          (CallStateContent \<lparr>m_intent = Some Ring, m_type = Some Video, m_name = None,
                              m_terminated = True\<rparr>),
        DisposeLocalMedia (LocalMedia 1), LogItemFinish, EmitChange]"
    and g: "gc_state (fst (leave (exEnv (Some exJoinContent)) exJoinedAlone)) = Created"
    and i: "members (fst (leave (exEnv (Some exJoinContent)) exJoinedAlone)) = []"
    and j: "joinedData (fst (leave (exEnv (Some exJoinContent)) exJoinedAlone)) = None"
    unfolding e own dev cid cc lc option.sel exJoiningAlone_def [symmetric] exJoinedAlone_def [symmetric]
    by this+
  from a b c lc f g i j show ?thesis by (intro conjI)
qed

text \<open>
  C7: the claim is that local media is present exactly when \<open>hasJoined\<close> holds, also
  after \<open>leave\<close> or \<open>disconnect\<close> in state Joining. \<open>disconnect\<close> resets the state only
  from Joined: from Joining, \<open>leave\<close> and \<open>disconnect\<close> clear \<open>joinedData\<close> and leave the
  state Joining, so \<open>hasJoined\<close> holds with no local media, and a later \<open>join\<close> returns
  without doing anything because the state is not Created.
\<close>

theorem C7_leave_while_joining_stays_joining:
  assumes "gc_state g = Joining" and "joinedData g = Some jd"
  shows "fst (leave env g) = g\<lparr>joinedData := None\<rparr>
         \<and> fst (GroupCall_disconnect g) = g\<lparr>joinedData := None\<rparr>
         \<and> hasJoined (fst (leave env g))
         \<and> GroupCall_localMedia (fst (leave env g)) = None
         \<and> hasJoined (fst (GroupCall_disconnect g))
         \<and> GroupCall_localMedia (fst (GroupCall_disconnect g)) = None
         \<and> join lm env' (fst (leave env g)) = (fst (leave env g), [], Returned)"
  using assms leave_Joining [OF assms, of env]
  by (simp add: disconnect_not_Joined hasJoined_def GroupCall_localMedia_def join_def)

theorem C7_leave_while_joining_stays_joining_witness:
  "gc_state exJoining = Joining
   \<and> GroupCall_localMedia exJoining = Some (LocalMedia 1)
   \<and> hasJoined (fst (leave (exEnv None) exJoining))
   \<and> GroupCall_localMedia (fst (leave (exEnv None) exJoining)) = None
   \<and> members (fst (leave (exEnv None) exJoining)) = members exJoining"
proof -
  have st: "gc_state exJoining = Joining"
    and jd: "joinedData exJoining = Some \<lparr>jd_localMedia = LocalMedia 1\<rparr>"
    by (simp_all add: exJoining_eq)
  note t = C7_leave_while_joining_stays_joining [OF st jd, where env = "exEnv None"
      and lm = "LocalMedia 2" and env' = "exEnv None"]
  from t have a: "hasJoined (fst (leave (exEnv None) exJoining))"
    and b: "GroupCall_localMedia (fst (leave (exEnv None) exJoining)) = None"
    and c: "fst (leave (exEnv None) exJoining) = exJoining\<lparr>joinedData := None\<rparr>"
    by blast+
  have m: "members (fst (leave (exEnv None) exJoining)) = members exJoining"
    unfolding c by simp
  have l: "GroupCall_localMedia exJoining = Some (LocalMedia 1)"
    by (simp add: GroupCall_localMedia_def jd)
  from st l a b m show ?thesis by (intro conjI)
qed

end
